theory Spec2Isabelle
  imports Main
begin

section \<open>Python values, dictionaries and the observable trace\<close>

text \<open>
  The tools are dynamically typed Python. A value is \<open>None\<close>, a boolean, an integer, a
  string, a list, a dictionary (insertion ordered, hence an association list with distinct
  keys) or a callable; the only callable the tools ever hold is the host's event emitter.
\<close>

datatype pyval =
    PNone
  | PBool bool
  | PInt int
  | PStr string
  | PList "pyval list"
  | PDict "(string \<times> pyval) list"
  | PFunc

type_synonym pydict = "(string \<times> pyval) list"

text \<open>\<open>bool(v)\<close>, as \<open>if v:\<close> and \<open>a and b\<close> test it.\<close>

fun truthy :: "pyval \<Rightarrow> bool" where
  "truthy PNone = False"
| "truthy (PBool b) = b"
| "truthy (PInt i) = (i \<noteq> 0)"
| "truthy (PStr s) = (s \<noteq> [])"
| "truthy (PList xs) = (xs \<noteq> [])"
| "truthy (PDict d) = (d \<noteq> [])"
| "truthy PFunc = True"

text \<open>\<open>type(v).__name__\<close>, as it appears in the message of a \<open>TypeError\<close>.\<close>

fun type_name :: "pyval \<Rightarrow> string" where
  "type_name PNone = ''NoneType''"
| "type_name (PBool b) = ''bool''"
| "type_name (PInt i) = ''int''"
| "type_name (PStr s) = ''str''"
| "type_name (PList xs) = ''list''"
| "type_name (PDict d) = ''dict''"
| "type_name PFunc = ''function''"

text \<open>\<open>d[k] = v\<close>: an existing key keeps its position, a new key goes last.\<close>

fun dict_set :: "string \<Rightarrow> 'v \<Rightarrow> (string \<times> 'v) list \<Rightarrow> (string \<times> 'v) list" where
  "dict_set k v [] = [(k, v)]"
| "dict_set k v ((k', v') # d) =
     (if k = k' then (k, v) # d else (k', v') # dict_set k v d)"

text \<open>\<open>d.update(e)\<close>.\<close>

definition dict_update :: "pydict \<Rightarrow> pydict \<Rightarrow> pydict" where
  "dict_update d e = fold (\<lambda>(k, v). dict_set k v) e d"

text \<open>\<open>d.get(k)\<close>: \<open>None\<close> for a missing key.\<close>

definition dict_get :: "pydict \<Rightarrow> string \<Rightarrow> pyval" where
  "dict_get d k = (case map_of d k of None \<Rightarrow> PNone | Some v \<Rightarrow> v)"

text \<open>The comprehension \<open>{k: v for k, v in d.items() if v is not None}\<close>.\<close>

definition drop_none :: "pydict \<Rightarrow> pydict" where
  "drop_none d = filter (\<lambda>(k, v). v \<noteq> PNone) d"

text \<open>\<open>str(n)\<close> for an integer, as an f-string renders a status code or a length.\<close>

fun str_nat :: "nat \<Rightarrow> string" where
  "str_nat n =
     (if n < 10 then [''0123456789'' ! n]
      else str_nat (n div 10) @ [''0123456789'' ! (n mod 10)])"

definition str_int :: "int \<Rightarrow> string" where
  "str_int i = (if i < 0 then CHR ''-'' # str_nat (nat (- i)) else str_nat (nat i))"

text \<open>
  A status description is an f-string. It is kept unrendered, as its literal pieces and
  the values interpolated into them, because \<open>repr\<close> of a dictionary or of a callable is
  the interpreter's business.
\<close>

datatype frag = Txt string | Val pyval

text \<open>The field \<open>done\<close> is spelt \<open>done_flag\<close>: \<open>done\<close> is a keyword of the proof language.\<close>

record status =
  description :: "frag list"
  done_flag :: bool
  hidden :: "bool option"

text \<open>
  What one call does to the outside world, in order: a status event handed to the progress
  sink, an HTTP request of \<open>httpx\<close> (URL and query parameters, for POST also the JSON
  body), a feed download of \<open>feedparser\<close> (base URL and the parameters that are URL-encoded
  behind it), a request of the \<open>yfinance\<close> library (ticker, what is asked, keyword
  arguments), or a line printed to standard output.
\<close>

datatype event =
    Emit status
  | Get string pydict
  | Post string pydict pyval
  | Parse string pydict
  | Yf string string pydict
  | Print string

fun is_net :: "event \<Rightarrow> bool" where
  "is_net (Emit s) = False"
| "is_net (Print s) = False"
| "is_net (Get u p) = True"
| "is_net (Post u p b) = True"
| "is_net (Parse u p) = True"
| "is_net (Yf t w k) = True"

fun is_emit :: "event \<Rightarrow> bool" where
  "is_emit (Emit s) = True"
| "is_emit (Get u p) = False"
| "is_emit (Post u p b) = False"
| "is_emit (Parse u p) = False"
| "is_emit (Yf t w k) = False"
| "is_emit (Print s) = False"

type_synonym trace = "event list"

definition net_calls :: "trace \<Rightarrow> nat" where
  "net_calls tr = length (filter is_net tr)"

text \<open>
  Exceptions, by class and message. A call either returns a value or lets an exception
  escape to its caller; in both cases it leaves the trace of what it did.
\<close>

datatype exn =
    TypeError string
  | ValueError string
  | AttributeError string
  | OtherError string

datatype 'a outcome = Returned 'a | Raised exn

type_synonym 'a io = "'a outcome \<times> trace"

text \<open>Sequencing: an exception of the first step skips what follows.\<close>

definition and_then :: "'a io \<Rightarrow> ('a \<Rightarrow> trace \<Rightarrow> 'b io) \<Rightarrow> 'b io" where
  "and_then m f = (case m of (Raised e, tr) \<Rightarrow> (Raised e, tr) | (Returned x, tr) \<Rightarrow> f x tr)"

text \<open>
  A step that only adds to the trace, and whose result and additions do not depend on what
  the trace held before.
\<close>

definition appends :: "(trace \<Rightarrow> 'a io) \<Rightarrow> bool" where
  "appends m = (\<forall>tr. m tr = (fst (m []), tr @ snd (m [])))"

text \<open>
  \<open>await __event_emitter__({"type": "status", "data": ...})\<close>. The sink is fire and forget:
  a callable records the event. Anything else in the emitter's place (\<open>None\<close> when the host
  supplies no sink) is not callable, and calling it raises \<open>TypeError\<close>.
\<close>

definition not_callable :: "pyval \<Rightarrow> exn" where
  "not_callable v =
     TypeError ([CHR 0x27] @ type_name v @ [CHR 0x27] @ '' object is not callable'')"

definition emit :: "pyval \<Rightarrow> status \<Rightarrow> trace \<Rightarrow> unit io" where
  "emit em ev tr =
     (case em of
        PFunc \<Rightarrow> (Returned (), tr @ [Emit ev])
      | _ \<Rightarrow> (Raised (not_callable em), tr))"

text \<open>
  One \<open>httpx\<close> exchange, \<open>client.get\<close> (or \<open>post\<close>), \<open>raise_for_status()\<close> and
  \<open>response.json()\<close> together, ends in one of four ways: a 2xx response whose body parses
  as JSON, a non-2xx response (\<open>httpx.HTTPStatusError\<close>, with its status code), no
  response at all (\<open>httpx.RequestError\<close>, with its message), or a 2xx response whose body
  is not JSON (\<open>json()\<close> raises a \<open>ValueError\<close>, which no handler of the tools catches).
  The remote side is a function from the number of requests made so far to the reply.
\<close>

datatype reply =
    Ok pyval
  | HTTPStatus int
  | RequestError string
  | Malformed string

type_synonym remote = "nat \<Rightarrow> reply"

text \<open>A remote side that answers every request alike.\<close>

definition always :: "'a \<Rightarrow> nat \<Rightarrow> 'a" where
  "always r n = r"

text \<open>A remote side that answers the first \<open>k\<close> requests one way and every later one another.\<close>

definition after :: "nat \<Rightarrow> 'a \<Rightarrow> 'a \<Rightarrow> nat \<Rightarrow> 'a" where
  "after k a b n = (if n < k then a else b)"

definition client_get :: "remote \<Rightarrow> string \<Rightarrow> pydict \<Rightarrow> trace \<Rightarrow> reply \<times> trace" where
  "client_get remote url params tr = (remote (net_calls tr), tr @ [Get url params])"

definition client_post :: "remote \<Rightarrow> string \<Rightarrow> pydict \<Rightarrow> pyval \<Rightarrow> trace \<Rightarrow> reply \<times> trace" where
  "client_post remote url params body tr = (remote (net_calls tr), tr @ [Post url params body])"

definition http_error_value :: "int \<Rightarrow> pyval" where
  "http_error_value code = PDict [(''error'', PStr (''HTTP error: '' @ str_int code))]"

definition request_error_value :: "string \<Rightarrow> pyval" where
  "request_error_value msg = PDict [(''error'', PStr (''Request error: '' @ msg))]"

definition http_error_status :: "int \<Rightarrow> status" where
  "http_error_status code =
     \<lparr>description = [Txt ''HTTP error: '', Val (PInt code)], done_flag = True, hidden = None\<rparr>"

definition request_error_status :: "string \<Rightarrow> status" where
  "request_error_status msg =
     \<lparr>description = [Txt ''Request error: '', Val (PStr msg)], done_flag = True, hidden = None\<rparr>"


section \<open>Semantic Scholar tool (\<open>semantic_scholar_tool.py\<close>)\<close>

definition ss_base_url :: string where
  "ss_base_url = ''https://api.semanticscholar.org/graph/v1/''"

text \<open>
  \<open>Tools.fetch_paper\<close>. Lines 81 to 98 build the parameters: the required \<open>query\<close>,
  then every optional argument that is not \<open>None\<close>. Then a starting event and one GET;
  the two handlers both return an error value. The argument \<open>fields\<close> is spelt
  \<open>fields'\<close>.
\<close>

definition fetch_paper_params ::
  "pyval \<Rightarrow> pyval \<Rightarrow> pyval \<Rightarrow> pyval \<Rightarrow> pyval \<Rightarrow> pyval \<Rightarrow> pyval \<Rightarrow> pyval \<Rightarrow> pyval \<Rightarrow>
   pyval \<Rightarrow> pyval \<Rightarrow> pydict" where
  "fetch_paper_params query limit fields' publicationTypes openAccessPdf minCitationCount
       publicationDateOrYear year venue fieldsOfStudy offset =
     (let params = [(''query'', query)];
          optional_params =
            [(''limit'', limit), (''fields'', fields'),
             (''publicationTypes'', publicationTypes), (''openAccessPdf'', openAccessPdf),
             (''minCitationCount'', minCitationCount),
             (''publicationDateOrYear'', publicationDateOrYear), (''year'', year),
             (''venue'', venue), (''fieldsOfStudy'', fieldsOfStudy), (''offset'', offset)]
      in dict_update params (drop_none optional_params))"

definition fetch_paper ::
  "remote \<Rightarrow> pyval \<Rightarrow> pyval \<Rightarrow> pyval \<Rightarrow> pyval \<Rightarrow> pyval \<Rightarrow> pyval \<Rightarrow> pyval \<Rightarrow> pyval \<Rightarrow>
   pyval \<Rightarrow> pyval \<Rightarrow> pyval \<Rightarrow> pyval \<Rightarrow> trace \<Rightarrow> pyval io" where
  "fetch_paper remote em query limit fields' publicationTypes openAccessPdf minCitationCount
       publicationDateOrYear year venue fieldsOfStudy offset tr =
     (let url = ss_base_url @ ''paper/search'';
          params = fetch_paper_params query limit fields' publicationTypes openAccessPdf
                     minCitationCount publicationDateOrYear year venue fieldsOfStudy offset
      in and_then
           (emit em \<lparr>description = [Txt ''Searching for papers...''],
                     done_flag = False, hidden = Some True\<rparr> tr)
           (\<lambda>_ tr1.
              case client_get remote url params tr1 of
                (Ok body, tr2) \<Rightarrow> (Returned body, tr2)
              | (HTTPStatus code, tr2) \<Rightarrow>
                  and_then (emit em (http_error_status code) tr2)
                    (\<lambda>_ tr3. (Returned (http_error_value code), tr3))
              | (RequestError m, tr2) \<Rightarrow>
                  and_then (emit em (request_error_status m) tr2)
                    (\<lambda>_ tr3. (Returned (request_error_value m), tr3))
              | (Malformed m, tr2) \<Rightarrow> (Raised (ValueError m), tr2)))"

text \<open>
  \<open>Tools.fetch_papers_partial_match\<close>: the same shape, but the \<open>RequestError\<close> handler
  ends after its status event without a \<open>return\<close>, so the call returns \<open>None\<close>.
\<close>

definition fetch_papers_partial_match :: "remote \<Rightarrow> pyval \<Rightarrow> pyval \<Rightarrow> trace \<Rightarrow> pyval io" where
  "fetch_papers_partial_match remote em query tr =
     (let url = ss_base_url @ ''paper/autocomplete'';
          params = [(''query'', query)]
      in and_then
           (emit em \<lparr>description = [Txt ''Searching for papers using partial match...''],
                     done_flag = False, hidden = Some True\<rparr> tr)
           (\<lambda>_ tr1.
              case client_get remote url params tr1 of
                (Ok body, tr2) \<Rightarrow> (Returned body, tr2)
              | (HTTPStatus code, tr2) \<Rightarrow>
                  and_then (emit em (http_error_status code) tr2)
                    (\<lambda>_ tr3. (Returned (http_error_value code), tr3))
              | (RequestError m, tr2) \<Rightarrow>
                  and_then (emit em (request_error_status m) tr2)
                    (\<lambda>_ tr3. (Returned PNone, tr3))
              | (Malformed m, tr2) \<Rightarrow> (Raised (ValueError m), tr2)))"

section \<open>Research Organization Registry tool (\<open>ror_tool.py\<close>)\<close>

definition ror_BASE_URL :: string where
  "ror_BASE_URL = ''https://api.ror.org/v2/organizations''"

definition ror_start_status :: "pyval \<Rightarrow> status" where
  "ror_start_status msg =
     \<lparr>description = [Txt ''Executing '', Val msg, Txt '' ROR query...''],
      done_flag = False, hidden = Some True\<rparr>"

text \<open>
  \<open>Tools.call_api(self, params=None, msg=None, __event_emitter__=None)\<close>. The starting
  event is guarded by \<open>if __event_emitter__:\<close>; the two events of the \<open>except\<close> branches
  are not. \<open>params\<close> is always a dictionary at the call sites (\<open>httpx\<close> treats \<open>None\<close>
  as the empty one).
\<close>

definition ror_call_api :: "remote \<Rightarrow> pydict \<Rightarrow> pyval \<Rightarrow> pyval \<Rightarrow> trace \<Rightarrow> pyval io" where
  "ror_call_api remote params msg em tr =
     and_then (if truthy em then emit em (ror_start_status msg) tr else (Returned (), tr))
       (\<lambda>_ tr1.
          case client_get remote ror_BASE_URL params tr1 of
            (Ok body, tr2) \<Rightarrow> (Returned body, tr2)
          | (HTTPStatus code, tr2) \<Rightarrow>
              and_then (emit em (http_error_status code) tr2)
                (\<lambda>_ tr3. (Returned (http_error_value code), tr3))
          | (RequestError m, tr2) \<Rightarrow>
              and_then (emit em (request_error_status m) tr2)
                (\<lambda>_ tr3. (Returned (request_error_value m), tr3))
          | (Malformed m, tr2) \<Rightarrow> (Raised (ValueError m), tr2))"

text \<open>An \<open>Optional[str]\<close> argument as a value, and \<open>sep.join(parts)\<close>.\<close>

fun opt_str :: "string option \<Rightarrow> pyval" where
  "opt_str None = PNone"
| "opt_str (Some s) = PStr s"

fun join :: "string \<Rightarrow> string list \<Rightarrow> string" where
  "join sep [] = []"
| "join sep [x] = x"
| "join sep (x # y # ys) = x @ sep @ join sep (y # ys)"

text \<open>
  Lines 153 to 164 of \<open>query\<close>, six times \<open>if v: filters.append(f"name:{v}")\<close>: a filter
  argument that is \<open>None\<close> or empty adds nothing.
\<close>

definition add_filter :: "string \<Rightarrow> string option \<Rightarrow> string list \<Rightarrow> string list" where
  "add_filter name v filters =
     (case v of
        Some s \<Rightarrow> (if truthy (PStr s) then filters @ [name @ '':'' @ s] else filters)
      | None \<Rightarrow> filters)"

definition ror_filters ::
  "string option \<Rightarrow> string option \<Rightarrow> string option \<Rightarrow> string option \<Rightarrow>
   string option \<Rightarrow> string option \<Rightarrow> string list" where
  "ror_filters status types country_code country_name continent_code continent_name =
     (let filters = [];
          filters = add_filter ''status'' status filters;
          filters = add_filter ''types'' types filters;
          filters = add_filter ''country_code'' country_code filters;
          filters = add_filter ''country_name'' country_name filters;
          filters = add_filter ''continent_code'' continent_code filters;
          filters = add_filter ''continent_name'' continent_name filters
      in filters)"

text \<open>Lines 148 to 168: the request parameters before any per-organization change.\<close>

definition ror_query_params ::
  "string list option \<Rightarrow> string option \<Rightarrow> string option \<Rightarrow> string option \<Rightarrow>
   string option \<Rightarrow> string option \<Rightarrow> string option \<Rightarrow> pydict" where
  "ror_query_params organization status types country_code country_name
       continent_code continent_name =
     (let params = [];
          filters = ror_filters status types country_code country_name
                      continent_code continent_name;
          params = (case organization of
                      Some orgs \<Rightarrow>
                        (if orgs \<noteq> [] then dict_set ''query'' (PList (map PStr orgs)) params
                         else params)
                    | None \<Rightarrow> params);
          params = (if length filters > 0
                    then dict_set ''filter'' (PStr (join '','' filters)) params
                    else params)
      in params)"

text \<open>
  The loop of lines 172 to 175. \<open>org_params = params\<close> binds a second name to the same
  dictionary, so every assignment to \<open>org_params['query']\<close> is seen by the next round. The
  call \<open>self.call_api(org_params, __event_emitter__)\<close> is positional: the emitter lands in
  the \<open>msg\<close> parameter, and \<open>__event_emitter__\<close> keeps its default \<open>None\<close>.
\<close>

fun query_loop :: "remote \<Rightarrow> pyval \<Rightarrow> string list \<Rightarrow> pydict \<Rightarrow> pyval list \<Rightarrow> trace \<Rightarrow> pyval io" where
  "query_loop remote em [] params results tr =
     (Returned (PDict [(''results'', PList results)]), tr)"
| "query_loop remote em (org # orgs) params results tr =
     (let org_params = dict_set ''query'' (PStr org) params in
      and_then (ror_call_api remote org_params em PNone tr)
        (\<lambda>r tr'. query_loop remote em orgs org_params (results @ [r]) tr'))"

definition query ::
  "remote \<Rightarrow> string list option \<Rightarrow> string option \<Rightarrow> string option \<Rightarrow> string option \<Rightarrow>
   string option \<Rightarrow> string option \<Rightarrow> string option \<Rightarrow> pyval \<Rightarrow> trace \<Rightarrow> pyval io" where
  "query remote organization status types country_code country_name
       continent_code continent_name em tr =
     (let msg = PStr ''basic'';
          params = ror_query_params organization status types country_code country_name
                     continent_code continent_name
      in case organization of
           Some orgs \<Rightarrow>
             (if length orgs > 1 then query_loop remote em orgs params [] tr
              else ror_call_api remote params msg em tr)
         | None \<Rightarrow> ror_call_api remote params msg em tr)"


section \<open>US Congress tool (\<open>us_congress_tool.py\<close>)\<close>

definition congress_BASE_URL :: string where
  "congress_BASE_URL = ''https://api.congress.gov/v3''"

definition congress_format :: string where
  "congress_format = ''application/json''"

text \<open>
  \<open>Tools.call_api(self, __event_emitter__, endpoint, params=None, msg=None)\<close>.
  \<open>self.api_key\<close> is \<open>os.getenv("API_KEY_GOV")\<close>, \<open>None\<close> when the variable is not set.
\<close>

definition congress_call_api ::
  "remote \<Rightarrow> string option \<Rightarrow> pyval \<Rightarrow> string option \<Rightarrow> pydict option \<Rightarrow> pyval \<Rightarrow>
   trace \<Rightarrow> pyval io" where
  "congress_call_api remote api_key em endpoint params msg tr =
     (case endpoint of
        None \<Rightarrow>
          and_then
            (emit em \<lparr>description =
                         [Txt ''API call unsuccessful, model did not select an endpoint.''],
                      done_flag = True, hidden = Some False\<rparr> tr)
            (\<lambda>_ tr1. (Returned (PDict [(''error'', PStr ''endpoint not supplied'')]), tr1))
      | Some ep \<Rightarrow>
          and_then
            (emit em \<lparr>description = [Txt ''Searching for '', Val msg, Txt ''...''],
                      done_flag = False, hidden = Some True\<rparr> tr)
            (\<lambda>_ tr1.
               let params = (case params of None \<Rightarrow> [] | Some d \<Rightarrow> d);
                   params = dict_set ''format'' (PStr congress_format) params;
                   params = dict_set ''api_key'' (opt_str api_key) params;
                   url = congress_BASE_URL @ ep
               in case client_get remote url params tr1 of
                    (Ok body, tr2) \<Rightarrow> (Returned body, tr2)
                  | (HTTPStatus code, tr2) \<Rightarrow>
                      and_then (emit em (http_error_status code) tr2)
                        (\<lambda>_ tr3. (Returned (http_error_value code), tr3))
                  | (RequestError m, tr2) \<Rightarrow>
                      and_then (emit em (request_error_status m) tr2)
                        (\<lambda>_ tr3. (Returned (request_error_value m), tr3))
                  | (Malformed m, tr2) \<Rightarrow> (Raised (ValueError m), tr2)))"

definition datetime_format :: string where
  "datetime_format = ''%Y-%m-%dT%H:%M:%SZ''"

text \<open>
  The block that the listing operations repeat for \<open>fromDateTime\<close> and \<open>toDateTime\<close>:
  \<^verbatim>\<open>
  if v:
      try:
          datetime.datetime.strptime(v, '%Y-%m-%dT%H:%M:%SZ')
          params[name] = v
      except ValueError:
          print(...); return None
  \<close>
  \<open>strptime\<close> belongs to the Python library; it is a parameter here, true where the
  library parses the string in the given format and false where it raises \<open>ValueError\<close>.
  The result is \<open>None\<close> where the block reaches \<open>return None\<close>.
\<close>

definition date_param ::
  "(string \<Rightarrow> string \<Rightarrow> bool) \<Rightarrow> string \<Rightarrow> string option \<Rightarrow> pydict \<Rightarrow> pydict option" where
  "date_param strptime name v params =
     (case v of
        None \<Rightarrow> Some params
      | Some s \<Rightarrow>
          (if truthy (PStr s)
           then (if strptime s datetime_format then Some (dict_set name (PStr s) params)
                 else None)
           else Some params))"

text \<open>
  A stand-in for \<open>strptime\<close> in examples: it parses one given string and raises
  \<open>ValueError\<close> for every other.
\<close>

definition accepts_only :: "string \<Rightarrow> string \<Rightarrow> string \<Rightarrow> bool" where
  "accepts_only good s fmt = (s = good)"

text \<open>\<open>Tools.get_bills\<close>. Its argument \<open>sort\<close> is spelt \<open>sort_arg\<close>.\<close>

definition get_bills ::
  "(string \<Rightarrow> string \<Rightarrow> bool) \<Rightarrow> remote \<Rightarrow> string option \<Rightarrow> pyval \<Rightarrow> int \<Rightarrow> int \<Rightarrow>
   string option \<Rightarrow> string option \<Rightarrow> string option \<Rightarrow> trace \<Rightarrow> pyval io" where
  "get_bills strptime remote api_key em offset limit fromDateTime toDateTime sort_arg tr =
     (let params = [];
          params = dict_set ''offset'' (PInt offset) params;
          params = dict_set ''limit'' (PInt limit) params
      in case date_param strptime ''fromDateTime'' fromDateTime params of
           None \<Rightarrow>
             (Returned PNone,
              tr @ [Print ''Incorrect fromDateTime format, should be YYYY-MM-DDT00:00:00Z''])
         | Some params \<Rightarrow>
             (case date_param strptime ''toDateTime'' toDateTime params of
                None \<Rightarrow>
                  (Returned PNone,
                   tr @ [Print ''Incorrect toDateTime format, should be YYYY-MM-DDT00:00:00Z''])
              | Some params \<Rightarrow>
                  (let params = (case sort_arg of
                                   Some s \<Rightarrow>
                                     (if truthy (PStr s) then dict_set ''sort'' (PStr s) params
                                      else params)
                                 | None \<Rightarrow> params);
                       endpoint = ''/bill'';
                       msg = PStr ''bills''
                   in congress_call_api remote api_key em (Some endpoint) (Some params) msg tr)))"


section \<open>arXiv tool (\<open>arxiv_tool.py\<close>)\<close>

text \<open>\<open>UserValves\<close> and the fields \<open>Tools.__init__\<close> sets, with their defaults.\<close>

record arxiv_valves =
  use_valves :: bool
  valve_start :: int
  valve_max_results :: int
  valve_sort_by :: string
  valve_sort_order :: string

record arxiv_tools =
  base_url :: string
  max_retries :: nat
  user_valves :: arxiv_valves

definition arxiv_default_valves :: arxiv_valves where
  "arxiv_default_valves =
     \<lparr>use_valves = False, valve_start = 0, valve_max_results = 10,
      valve_sort_by = ''relevance'', valve_sort_order = ''ascending''\<rparr>"

definition arxiv_init :: arxiv_tools where
  "arxiv_init =
     \<lparr>base_url = ''http://export.arxiv.org/api/query'', max_retries = 3,
      user_valves = arxiv_default_valves\<rparr>"

text \<open>
  \<open>feedparser.parse(url)\<close> either raises or returns a feed. A feed carries the HTTP status
  of the download and the entries found in the body; \<open>feedparser\<close> hands a non-2xx response
  back as a feed like any other, it does not raise for it. An entry is read as a plain
  dictionary: \<open>hasattr(entry, k)\<close> is "the key is there", \<open>entry.k\<close> is the value or an
  \<open>AttributeError\<close> (the key aliases of \<open>FeedParserDict\<close> are left out).
\<close>

datatype feed_result = Feed int "pydict list" | ParseRaises exn

type_synonym feed_remote = "nat \<Rightarrow> feed_result"

definition feedparser_parse ::
  "feed_remote \<Rightarrow> string \<Rightarrow> pydict \<Rightarrow> trace \<Rightarrow> feed_result \<times> trace" where
  "feedparser_parse remote url params tr = (remote (net_calls tr), tr @ [Parse url params])"

text \<open>\<open>str(e)\<close> of an exception.\<close>

fun exn_msg :: "exn \<Rightarrow> string" where
  "exn_msg (TypeError m) = m"
| "exn_msg (ValueError m) = m"
| "exn_msg (AttributeError m) = m"
| "exn_msg (OtherError m) = m"

text \<open>Pure steps that may raise, in sequence.\<close>

definition obind :: "'a outcome \<Rightarrow> ('a \<Rightarrow> 'b outcome) \<Rightarrow> 'b outcome" where
  "obind m f = (case m of Raised e \<Rightarrow> Raised e | Returned x \<Rightarrow> f x)"

fun collect :: "('a \<Rightarrow> 'b outcome) \<Rightarrow> 'a list \<Rightarrow> 'b list outcome" where
  "collect f [] = Returned []"
| "collect f (x # xs) = obind (f x) (\<lambda>y. obind (collect f xs) (\<lambda>ys. Returned (y # ys)))"

definition no_attribute :: "pyval \<Rightarrow> string \<Rightarrow> exn" where
  "no_attribute v a =
     AttributeError ([CHR 0x27] @ type_name v @ [CHR 0x27] @ '' object has no attribute ''
                     @ [CHR 0x27] @ a @ [CHR 0x27])"

text \<open>\<open>v.a\<close> on an author, tag or link of an entry.\<close>

fun py_attr :: "string \<Rightarrow> pyval \<Rightarrow> pyval outcome" where
  "py_attr a (PDict d) =
     (case map_of d a of Some v \<Rightarrow> Returned v | None \<Rightarrow> Raised (no_attribute (PDict d) a))"
| "py_attr a v = Raised (no_attribute v a)"

text \<open>\<open>for x in v\<close>: the elements of a list, the characters of a string, the keys of a dictionary.\<close>

fun py_iter :: "pyval \<Rightarrow> pyval list outcome" where
  "py_iter (PList xs) = Returned xs"
| "py_iter (PStr s) = Returned (map (\<lambda>c. PStr [c]) s)"
| "py_iter (PDict d) = Returned (map (\<lambda>(k, v). PStr k) d)"
| "py_iter v =
     Raised (TypeError ([CHR 0x27] @ type_name v @ [CHR 0x27] @ '' object is not iterable''))"

text \<open>\<open>[x.a for x in entry.k] if hasattr(entry, k) else None\<close>.\<close>

definition attr_list :: "pydict \<Rightarrow> string \<Rightarrow> string \<Rightarrow> pyval outcome" where
  "attr_list entry k a =
     (case map_of entry k of
        None \<Rightarrow> Returned PNone
      | Some v \<Rightarrow>
          obind (py_iter v) (\<lambda>xs. obind (collect (py_attr a) xs) (\<lambda>ys. Returned (PList ys))))"

text \<open>
  \<open>entry.get("arxiv_primary_category", {}).get("term") if hasattr(entry,
  "arxiv_primary_category") else None\<close>.
\<close>

definition primary_category :: "pydict \<Rightarrow> pyval outcome" where
  "primary_category entry =
     (case map_of entry ''arxiv_primary_category'' of
        None \<Rightarrow> Returned PNone
      | Some (PDict d) \<Rightarrow> Returned (dict_get d ''term'')
      | Some v \<Rightarrow> Raised (no_attribute v ''get''))"

text \<open>
  The dictionary \<open>paper\<close> of lines 146 to 160, its thirteen values computed in the order
  written; \<open>entry.get(k) if hasattr(entry, k) else None\<close> is \<open>entry.get(k)\<close>.
\<close>

definition paper_candidate :: "pydict \<Rightarrow> pydict outcome" where
  "paper_candidate entry =
     obind (attr_list entry ''authors'' ''name'') (\<lambda>authors.
     obind (attr_list entry ''tags'' ''term'') (\<lambda>categories.
     obind (primary_category entry) (\<lambda>primary.
     obind (attr_list entry ''links'' ''href'') (\<lambda>links.
       Returned
         [(''id'', dict_get entry ''id''),
          (''title'', dict_get entry ''title''),
          (''summary'', dict_get entry ''summary''),
          (''published'', dict_get entry ''published''),
          (''updated'', dict_get entry ''updated''),
          (''authors'', authors),
          (''categories'', categories),
          (''doi'', dict_get entry ''arxiv_doi''),
          (''journal_ref'', dict_get entry ''arxiv_journal_ref''),
          (''comment'', dict_get entry ''arxiv_comment''),
          (''primary_category'', primary),
          (''affiliation'', dict_get entry ''arxiv_affiliation''),
          (''links'', links)]))))"

text \<open>Line 162: what is appended to \<open>papers\<close> for one entry.\<close>

definition paper_of_entry :: "pydict \<Rightarrow> pyval outcome" where
  "paper_of_entry entry = obind (paper_candidate entry) (\<lambda>paper. Returned (PDict (drop_none paper)))"

text \<open>
  \<open>json.dumps(v, indent=2)\<close>: the text is kept as the value it renders. A callable has no
  JSON form, \<open>dumps\<close> raises \<open>TypeError\<close> for it.
\<close>

datatype json_text = Dumps pyval

fun json_ok :: "pyval \<Rightarrow> bool" where
  "json_ok PFunc = False"
| "json_ok (PList xs) = list_all json_ok xs"
| "json_ok (PDict d) = list_all json_ok (map snd d)"
| "json_ok v = True"

definition json_dumps :: "pyval \<Rightarrow> json_text outcome" where
  "json_dumps v =
     (if json_ok v then Returned (Dumps v)
      else Raised (TypeError ''Object of type function is not JSON serializable''))"

text \<open>Lines 110 to 129: the outgoing parameters.\<close>

definition search_params ::
  "arxiv_tools \<Rightarrow> pyval \<Rightarrow> pyval \<Rightarrow> pyval \<Rightarrow> pyval \<Rightarrow> pyval \<Rightarrow> pyval \<Rightarrow> pydict" where
  "search_params self search_query id_list start max_results sort_by sort_order =
     (let params = [];
          optional_params = [(''search_query'', search_query), (''id_list'', id_list)];
          optional_params =
            (if use_valves (user_valves self)
             then dict_update optional_params
                    [(''start'', start), (''max_results'', max_results),
                     (''sortBy'', sort_by), (''sort_order'', sort_order)]
             else
               (let optional_params =
                      dict_set ''start'' (PInt (valve_start (user_valves self))) optional_params;
                    optional_params =
                      dict_set ''max_results'' (PInt (valve_max_results (user_valves self)))
                        optional_params;
                    optional_params =
                      dict_set ''sortBy'' (PStr (valve_sort_by (user_valves self))) optional_params;
                    optional_params =
                      dict_set ''sortOrder'' (PStr (valve_sort_order (user_valves self)))
                        optional_params
                in optional_params))
      in dict_update params (drop_none optional_params))"

definition exception_status :: "exn \<Rightarrow> status" where
  "exception_status e =
     \<lparr>description = [Txt ''Exception: '', Val (PStr (exn_msg e))],
      done_flag = False, hidden = Some True\<rparr>"

definition retries_exhausted :: json_text where
  "retries_exhausted =
     Dumps (PDict [(''error'', PStr ''Failed to fetch data after multiple attempts.'')])"

text \<open>One round of the \<open>try\<close> body, lines 143 to 164: the download, the records, the text.\<close>

definition search_attempt ::
  "arxiv_tools \<Rightarrow> feed_remote \<Rightarrow> pydict \<Rightarrow> trace \<Rightarrow> json_text io" where
  "search_attempt self remote params tr =
     (case feedparser_parse remote (base_url self) params tr of
        (ParseRaises e, tr1) \<Rightarrow> (Raised e, tr1)
      | (Feed st entries, tr1) \<Rightarrow>
          (obind (collect paper_of_entry entries) (\<lambda>papers. json_dumps (PList papers)), tr1))"

text \<open>What a round comes to, given what its download gave.\<close>

definition round_result :: "feed_result \<Rightarrow> json_text outcome" where
  "round_result r =
     (case r of
        ParseRaises e \<Rightarrow> Raised e
      | Feed st entries \<Rightarrow>
          obind (collect paper_of_entry entries) (\<lambda>papers. json_dumps (PList papers)))"

text \<open>
  The loop of lines 140 to 173. \<open>except Exception\<close> catches whatever the round raised,
  reports it and counts the attempt; the report itself is outside any \<open>try\<close>.
\<close>

function search_loop ::
  "arxiv_tools \<Rightarrow> feed_remote \<Rightarrow> pyval \<Rightarrow> pydict \<Rightarrow> nat \<Rightarrow> trace \<Rightarrow> json_text io" where
  "search_loop self remote em params attempt tr =
     (if attempt < max_retries self then
        (case search_attempt self remote params tr of
           (Returned text, tr1) \<Rightarrow> (Returned text, tr1)
         | (Raised e, tr1) \<Rightarrow>
             (case emit em (exception_status e) tr1 of
                (Raised e', tr2) \<Rightarrow> (Raised e', tr2)
              | (Returned u, tr2) \<Rightarrow> search_loop self remote em params (attempt + 1) tr2))
      else (Returned retries_exhausted, tr))"
  by pat_completeness auto
termination
  by (relation "measure (\<lambda>(self, remote, em, params, attempt, tr). max_retries self - attempt)")
     auto

text \<open>\<open>Tools.search\<close>; the argument \<open>__user__\<close> is never read.\<close>

definition search ::
  "arxiv_tools \<Rightarrow> feed_remote \<Rightarrow> pyval \<Rightarrow> pyval \<Rightarrow> pyval \<Rightarrow> pyval \<Rightarrow> pyval \<Rightarrow> pyval \<Rightarrow> pyval \<Rightarrow>
   trace \<Rightarrow> json_text io" where
  "search self remote em search_query id_list start max_results sort_by sort_order tr =
     (let params = search_params self search_query id_list start max_results sort_by sort_order
      in and_then
           (emit em \<lparr>description =
                        [Txt ''Searching ArXiv with the following parameters '',
                         Val (PDict params)],
                     done_flag = False, hidden = Some True\<rparr> tr)
           (\<lambda>_ tr1. search_loop self remote em params 0 tr1))"


section \<open>Yahoo Finance tool (\<open>yfinance_tool.py\<close>)\<close>

record yf_valves =
  include_dividends :: bool
  include_splits :: bool
  auto_adjust :: bool
  include_prepost :: bool

definition yf_default_valves :: yf_valves where
  "yf_default_valves =
     \<lparr>include_dividends = True, include_splits = True, auto_adjust = False,
      include_prepost = False\<rparr>"

text \<open>
  What the \<open>yfinance\<close> library hands back: a \<open>DataFrame\<close> (given by its rows, as
  \<open>to_dict(orient="records")\<close> lists them once the index is a column and the timestamps
  are strings), a \<open>Series\<close> (given by its labelled values), a dictionary or a list of such
  values, or a plain Python value.
\<close>

datatype yval =
    YFrame "pydict list"
  | YSeries pydict
  | YDict "(string \<times> yval) list"
  | YList "yval list"
  | YPlain pyval

text \<open>\<open>Tools.make_json_serializable\<close>.\<close>

fun make_json_serializable :: "yval \<Rightarrow> pyval" where
  "make_json_serializable (YFrame rows) = PList (map PDict rows)"
| "make_json_serializable (YSeries d) = PDict d"
| "make_json_serializable (YDict d) =
     PDict (map (\<lambda>(k, v). (k, make_json_serializable v)) d)"
| "make_json_serializable (YList xs) = PList (map make_json_serializable xs)"
| "make_json_serializable (YPlain v) = v"

text \<open>
  The library is asked for the price history of a ticker (\<open>t.history(**kwargs)\<close>), for
  the result of calling an attribute (\<open>getattr(t, data_type)()\<close>) or for an attribute
  (\<open>getattr(t, extra)\<close>). It answers with a value, raises, or has no such attribute.
  Creating the handle \<open>yf.Ticker(ticker)\<close> asks nothing.
\<close>

datatype yf_call = History pydict | Method string | Attr string

datatype yf_result = YValue yval | YRaises exn | YMissing

type_synonym yf_lib = "string \<Rightarrow> yf_call \<Rightarrow> yf_result"

text \<open>A library that gives the same answer whatever it is asked.\<close>

definition answering :: "yf_result \<Rightarrow> yf_lib" where
  "answering r ticker c = r"


fun call_name :: "yf_call \<Rightarrow> string" where
  "call_name (History kwargs) = ''history''"
| "call_name (Method name) = name"
| "call_name (Attr name) = name"

fun call_kwargs :: "yf_call \<Rightarrow> pydict" where
  "call_kwargs (History kwargs) = kwargs"
| "call_kwargs (Method name) = []"
| "call_kwargs (Attr name) = []"

definition lib_call :: "yf_lib \<Rightarrow> string \<Rightarrow> yf_call \<Rightarrow> trace \<Rightarrow> yval io" where
  "lib_call lib ticker c tr =
     (case lib ticker c of
        YValue v \<Rightarrow> Returned v
      | YRaises e \<Rightarrow> Raised e
      | YMissing \<Rightarrow>
          Raised (AttributeError ([CHR 0x27] @ ''Ticker'' @ [CHR 0x27]
                    @ '' object has no attribute '' @ [CHR 0x27] @ call_name c @ [CHR 0x27])),
      tr @ [Yf ticker (call_name c) (call_kwargs c)])"

text \<open>\<open>hasattr(t, name)\<close>: false on \<open>AttributeError\<close>, any other exception passes through.\<close>

definition lib_hasattr :: "yf_lib \<Rightarrow> string \<Rightarrow> string \<Rightarrow> trace \<Rightarrow> bool io" where
  "lib_hasattr lib ticker name tr =
     (case lib ticker (Attr name) of
        YValue v \<Rightarrow> Returned True
      | YMissing \<Rightarrow> Returned False
      | YRaises (AttributeError m) \<Rightarrow> Returned False
      | YRaises e \<Rightarrow> Raised e,
      tr @ [Yf ticker name []])"

text \<open>
  Lines 68 to 85: the keyword arguments of \<open>t.history\<close>. \<open>today_minus n\<close> stands for
  \<open>(datetime.now() - timedelta(days=n)).strftime('%Y-%m-%d')\<close>.
\<close>

definition base_kwargs :: "yf_valves \<Rightarrow> string \<Rightarrow> pydict" where
  "base_kwargs valves interval =
     [(''interval'', PStr interval),
      (''actions'', PBool (include_dividends valves \<or> include_splits valves)),
      (''auto_adjust'', PBool (auto_adjust valves)),
      (''prepost'', PBool (include_prepost valves))]"

definition history_kwargs ::
  "(nat \<Rightarrow> string) \<Rightarrow> pydict \<Rightarrow> string option \<Rightarrow> string option \<Rightarrow> string option \<Rightarrow> pydict" where
  "history_kwargs today_minus kwargs start_date end_date period =
     (if truthy (opt_str start_date) \<and> truthy (opt_str end_date) then
        dict_set ''end'' (opt_str end_date) (dict_set ''start'' (opt_str start_date) kwargs)
      else if truthy (opt_str start_date) \<and> truthy (opt_str period) then
        dict_set ''period'' (opt_str period) (dict_set ''start'' (opt_str start_date) kwargs)
      else if truthy (opt_str end_date) \<and> truthy (opt_str period) then
        dict_set ''period'' (opt_str period) (dict_set ''end'' (opt_str end_date) kwargs)
      else if truthy (opt_str period) then
        dict_set ''period'' (opt_str period) kwargs
      else
        dict_set ''end'' (PStr (today_minus 1)) (dict_set ''start'' (PStr (today_minus 2)) kwargs))"

text \<open>
  Lines 94 to 98. \<open>to_json(orient="records")\<close> exists on a \<open>DataFrame\<close> (its rows) and on a
  \<open>Series\<close> (its values); every other value is taken as it is.
\<close>

fun extra_records :: "yval \<Rightarrow> yval" where
  "extra_records (YFrame rows) = YPlain (PList (map PDict rows))"
| "extra_records (YSeries d) = YPlain (PList (map snd d))"
| "extra_records v = v"

definition with_extra :: "yf_lib \<Rightarrow> string \<Rightarrow> string option \<Rightarrow> yval \<Rightarrow> trace \<Rightarrow> yval io" where
  "with_extra lib ticker extra data tr =
     (case extra of
        None \<Rightarrow> (Returned data, tr)
      | Some name \<Rightarrow>
          (if truthy (PStr name) then
             and_then (lib_hasattr lib ticker name tr)
               (\<lambda>has tr1.
                  if has then
                    and_then (lib_call lib ticker (Attr name) tr1)
                      (\<lambda>extra_data tr2.
                         (Returned (YDict (dict_set name (extra_records extra_data)
                                             [(''main'', data)])), tr2))
                  else (Returned data, tr1))
           else (Returned data, tr)))"

definition unknown_data_type :: "string \<Rightarrow> pyval" where
  "unknown_data_type data_type =
     PDict [(''error'', PStr (''Unknown data_type '' @ [CHR 0x27] @ data_type @ [CHR 0x27]))]"

text \<open>
  The \<open>try\<close> body of \<open>fetch_single_ticker\<close>, lines 68 to 101; its value is what goes under
  the ticker's key. \<open>dict(data)\<close> of the library's \<open>fast_info\<close> mapping is that mapping.
\<close>

definition fetch_body ::
  "yf_lib \<Rightarrow> (nat \<Rightarrow> string) \<Rightarrow> yf_valves \<Rightarrow> pyval \<Rightarrow> string \<Rightarrow> string option \<Rightarrow>
   string option \<Rightarrow> string \<Rightarrow> string option \<Rightarrow> string \<Rightarrow> string option \<Rightarrow> trace \<Rightarrow> pyval io" where
  "fetch_body lib today_minus valves em ticker start_date end_date data_type period interval
       extra tr =
     (let kwargs = base_kwargs valves interval;
          finish = (\<lambda>data tr1.
            and_then (with_extra lib ticker extra data tr1)
              (\<lambda>data tr2.
                 let data = make_json_serializable data in
                 and_then
                   (emit em \<lparr>description = [Txt ''Fetched '', Val (PStr ticker),
                                             Txt '' successfully''],
                             done_flag = True, hidden = None\<rparr> tr2)
                   (\<lambda>_ tr3. (Returned data, tr3))))
      in if data_type = ''history'' then
           and_then
             (lib_call lib ticker
                (History (history_kwargs today_minus kwargs start_date end_date period)) tr)
             finish
         else if data_type \<in> set [''info'', ''fast_info'', ''financials'', ''balance_sheet'',
                                   ''cashflow''] then
           and_then (lib_call lib ticker (Method data_type) tr) finish
         else (Returned (unknown_data_type data_type), tr))"

text \<open>\<open>Tools.fetch_single_ticker\<close>: the starting event, the body, the \<open>except\<close> handler.\<close>

definition fetch_single_ticker ::
  "yf_lib \<Rightarrow> (nat \<Rightarrow> string) \<Rightarrow> yf_valves \<Rightarrow> pyval \<Rightarrow> string \<Rightarrow> string option \<Rightarrow>
   string option \<Rightarrow> string \<Rightarrow> string option \<Rightarrow> string \<Rightarrow> string option \<Rightarrow> trace \<Rightarrow> pyval io" where
  "fetch_single_ticker lib today_minus valves em ticker start_date end_date data_type period
       interval extra tr =
     and_then
       (emit em \<lparr>description = [Txt ''Fetching '', Val (PStr ticker), Txt '' ('',
                                 Val (PStr data_type), Txt '')...''],
                 done_flag = False, hidden = None\<rparr> tr)
       (\<lambda>_ tr1.
          case fetch_body lib today_minus valves em ticker start_date end_date data_type
                 period interval extra tr1 of
            (Returned data, tr2) \<Rightarrow> (Returned (PDict [(ticker, data)]), tr2)
          | (Raised e, tr2) \<Rightarrow>
              and_then
                (emit em \<lparr>description = [Txt ''Error fetching '', Val (PStr ticker), Txt '': '',
                                          Val (PStr (exn_msg e))],
                          done_flag = True, hidden = None\<rparr> tr2)
                (\<lambda>_ tr3. (Returned (PDict [(ticker, PDict [(''error'', PStr (exn_msg e))])]),
                           tr3)))"






section \<open>Properties\<close>

lemmas io_defs = and_then_def emit_def client_get_def net_calls_def always_def

subsection \<open>Counting network calls\<close>

lemma net_calls_Nil [simp]: "net_calls [] = 0"
  by (simp add: net_calls_def)

lemma net_calls_Cons [simp]: "net_calls (ev # tr) = (if is_net ev then 1 else 0) + net_calls tr"
  by (simp add: net_calls_def)
lemma net_calls_append [simp]: "net_calls (tr @ tr') = net_calls tr + net_calls tr'"
  by (simp add: net_calls_def)

subsection \<open>Sequencing\<close>

lemma and_then_Returned: "fst m = Returned x \<Longrightarrow> and_then m f = f x (snd m)"
  by (cases m) (simp add: and_then_def)

lemma and_then_Raised: "fst m = Raised e \<Longrightarrow> and_then m f = (Raised e, snd m)"
  by (cases m) (simp add: and_then_def)

subsection \<open>Errors as data\<close>

text \<open>
  Claim C1: every operation returns a success payload or an error value
  \<open>{"error": ...}\<close>, no exception reaches the host, in particular without a progress sink
  and on a transport error. The code does not do this. The registry's \<open>call_api\<close> guards
  only its first status event with \<open>if __event_emitter__:\<close>; called without a sink, a
  non-2xx answer takes it into a handler that calls \<open>None\<close>, and the \<open>TypeError\<close> escapes
  after the one request. And \<open>fetch_papers_partial_match\<close>, with a sink, answers a
  transport error with \<open>None\<close>, where its sibling \<open>fetch_paper\<close> returns the error value.
\<close>

theorem call_api_without_sink_raises:
  "ror_call_api (always (HTTPStatus 500)) [] (PStr ''basic'') PNone []
     = (Raised (not_callable PNone), [Get ror_BASE_URL []])
   \<and> fst (fetch_papers_partial_match (always (RequestError ''timed out'')) PFunc
            (PStr ''semanti'') []) = Returned PNone
   \<and> fst (fetch_paper (always (RequestError ''timed out'')) PFunc (PStr ''semanti'')
            PNone PNone PNone PNone PNone PNone PNone PNone PNone PNone [])
       = Returned (request_error_value ''timed out'')"
  by (simp add: ror_call_api_def fetch_papers_partial_match_def fetch_paper_def
        fetch_paper_params_def dict_update_def drop_none_def io_defs)

subsection \<open>The starting status event\<close>

text \<open>
  Claim C9: with a progress sink supplied, a status event with \<open>done=false\<close> reaches the
  sink before any network call, also for each sub-call of the registry's query over
  several organizations. The code does not do this on that path: \<open>query\<close> passes the
  emitter positionally, into \<open>msg\<close>, so \<open>call_api\<close> sees no sink and sends both requests
  without a single status event. The single-organization call two lines below passes
  \<open>params, msg, __event_emitter__\<close> as intended.
\<close>

theorem query_many_emits_nothing:
  "query (always (Ok (PDict []))) (Some [''MIT'', ''ETH'']) None None None None None None
       PFunc []
     = (Returned (PDict [(''results'', PList [PDict [], PDict []])]),
        [Get ror_BASE_URL [(''query'', PStr ''MIT'')],
         Get ror_BASE_URL [(''query'', PStr ''ETH'')]])"
  by (simp add: query_def ror_query_params_def ror_filters_def add_filter_def
        ror_call_api_def io_defs)

subsection \<open>The registry's query over several organizations\<close>

text \<open>
  Claim C10: a query over more than one organization returns \<open>{"results": [...]}\<close> with one
  element per organization, in order, the i-th request asking for the i-th name under the
  shared filters. The code does not do this when the registry answers a sub-request with
  an error: the handler in \<open>call_api\<close> calls the sink, which is \<open>None\<close> on this path (the
  emitter went into \<open>msg\<close>), and the \<open>TypeError\<close> ends the whole query after the first
  request.
\<close>

theorem query_many_raises_on_http_error:
  "query (always (HTTPStatus 500)) (Some [''MIT'', ''ETH'']) (Some ''active'') None None None
       None None PFunc []
     = (Raised (not_callable PNone),
        [Get ror_BASE_URL [(''query'', PStr ''MIT''), (''filter'', PStr ''status:active'')]])"
  by (simp add: query_def ror_query_params_def ror_filters_def add_filter_def
        ror_call_api_def io_defs)


subsection \<open>The arXiv search: bounded retries\<close>

declare search_loop.simps [simp del]

lemma search_attempt_raises:
  "remote (net_calls tr) = ParseRaises e \<Longrightarrow>
   search_attempt self remote params tr = (Raised e, tr @ [Parse (base_url self) params])"
  by (simp add: search_attempt_def feedparser_parse_def)

lemma search_loop_all_raise:
  assumes "\<forall>n. \<exists>e. remote n = ParseRaises e"
  shows "fst (search_loop self remote PFunc params attempt tr) = Returned retries_exhausted
       \<and> net_calls (snd (search_loop self remote PFunc params attempt tr))
           = net_calls tr + (max_retries self - attempt)"
  using assms
proof (induction self remote "PFunc" params attempt tr rule: search_loop.induct)
  case (1 self remote params attempt tr)
  show ?case
  proof (cases "attempt < max_retries self")
    case False
    then show ?thesis by (simp add: search_loop.simps [of self remote PFunc params attempt tr])
  next
    case True
    from "1.prems" obtain e where e: "remote (net_calls tr) = ParseRaises e" by blast
    let ?tr1 = "tr @ [Parse (base_url self) params]"
    let ?tr2 = "?tr1 @ [Emit (exception_status e)]"
    have att: "search_attempt self remote params tr = (Raised e, ?tr1)"
      using e by (rule search_attempt_raises)
    have em: "emit PFunc (exception_status e) ?tr1 = (Returned (), ?tr2)"
      by (simp add: emit_def)
    have step: "search_loop self remote PFunc params attempt tr
                  = search_loop self remote PFunc params (attempt + 1) ?tr2"
      using True att em by (simp add: search_loop.simps [of self remote PFunc params attempt tr])
    have ih: "fst (search_loop self remote PFunc params (attempt + 1) ?tr2)
                = Returned retries_exhausted
       \<and> net_calls (snd (search_loop self remote PFunc params (attempt + 1) ?tr2))
           = net_calls ?tr2 + (max_retries self - (attempt + 1))"
      using "1.hyps" [OF True att [symmetric] refl em [symmetric] refl] "1.prems" by simp
    show ?thesis using ih step True by simp
  qed
qed

text \<open>
  Claim C2, as the code has it: when the arXiv search is called with a progress sink and
  every download raises, it makes exactly \<open>max_retries = 3\<close> attempts, no more, and then
  returns the error value \<open>{"error": "Failed to fetch data after multiple attempts."}\<close>.
  The tool is the one \<open>__init__\<close> builds, whatever its valves; the attempts are the
  network calls the search adds to the trace.
\<close>

theorem search_retries_exhausted:
  assumes "\<forall>n. \<exists>e. remote n = ParseRaises e"
  shows "fst (search (arxiv_init\<lparr>user_valves := valves\<rparr>) remote PFunc search_query id_list
                start max_results sort_by sort_order tr) = Returned retries_exhausted
       \<and> net_calls (snd (search (arxiv_init\<lparr>user_valves := valves\<rparr>) remote PFunc search_query
                id_list start max_results sort_by sort_order tr)) = net_calls tr + 3"
  using search_loop_all_raise [OF assms, of "arxiv_init\<lparr>user_valves := valves\<rparr>"]
  by (simp add: search_def emit_def and_then_def Let_def arxiv_init_def)

theorem search_retries_exhausted_witness:
  "fst (search arxiv_init (always (ParseRaises (OtherError ''timed out''))) PFunc
          (PStr ''all:electron'') PNone PNone PNone PNone PNone []) = Returned retries_exhausted
   \<and> net_calls (snd (search arxiv_init (always (ParseRaises (OtherError ''timed out''))) PFunc
          (PStr ''all:electron'') PNone PNone PNone PNone PNone [])) = 3"
proof -
  have same: "arxiv_init\<lparr>user_valves := arxiv_default_valves\<rparr> = arxiv_init"
    by (simp add: arxiv_init_def)
  show ?thesis
    using search_retries_exhausted [of "always (ParseRaises (OtherError ''timed out''))"
            arxiv_default_valves "PStr ''all:electron''" PNone PNone PNone PNone PNone "[]"]
    unfolding same by (simp add: always_def)
qed

text \<open>
  The claim is stated without a condition on the sink, and without one the search does
  not get that far: the emitter is a required argument, called before the loop and outside
  any \<open>try\<close>, so with \<open>None\<close> in its place the search raises before its first attempt
  and returns no error value.
\<close>

theorem search_without_sink_raises:
  "search arxiv_init (always (ParseRaises (OtherError ''timed out''))) PNone
       (PStr ''all:electron'') PNone PNone PNone PNone PNone []
     = (Raised (not_callable PNone), [])"
  by (simp add: search_def emit_def and_then_def)

subsection \<open>The arXiv search: records without top-level \<open>None\<close>\<close>

lemma obind_Returned: "obind m f = Returned y \<longleftrightarrow> (\<exists>x. m = Returned x \<and> f x = Returned y)"
  by (cases m) (simp_all add: obind_def)

lemma collect_Returned:
  "collect f xs = Returned ys \<longleftrightarrow>
     length ys = length xs \<and> (\<forall>i < length xs. f (xs ! i) = Returned (ys ! i))"
proof (induction xs arbitrary: ys)
  case Nil
  then show ?case by auto
next
  case (Cons x xs)
  show ?case
  proof (cases ys)
    case Nil
    then show ?thesis by (auto simp: obind_Returned)
  next
    case (Cons y ys')
    then show ?thesis
      using Cons.IH [of ys'] by (auto simp: obind_Returned nth_Cons split: nat.splits)
  qed
qed

lemma json_ok_map_of: "list_all json_ok (map snd d) \<Longrightarrow> map_of d k = Some v \<Longrightarrow> json_ok v"
  by (induction d) (auto split: if_splits)

lemma json_ok_dict_get: "list_all json_ok (map snd d) \<Longrightarrow> json_ok (dict_get d k)"
  by (auto simp: dict_get_def split: option.splits dest: json_ok_map_of)

lemma json_ok_py_attr: "json_ok x \<Longrightarrow> py_attr a x = Returned y \<Longrightarrow> json_ok y"
  by (cases x) (auto split: option.splits dest: json_ok_map_of)

lemma json_ok_py_iter: "json_ok v \<Longrightarrow> py_iter v = Returned xs \<Longrightarrow> list_all json_ok xs"
  by (cases v) (auto simp: list_all_iff)

lemma json_ok_collect_attr:
  "list_all json_ok xs \<Longrightarrow> collect (py_attr a) xs = Returned ys \<Longrightarrow> list_all json_ok ys"
  by (auto simp: collect_Returned list_all_length intro: json_ok_py_attr)

lemma json_ok_attr_list:
  assumes "list_all json_ok (map snd e)" "attr_list e k a = Returned v"
  shows "json_ok v"
proof (cases "map_of e k")
  case None
  then show ?thesis using assms(2) by (simp add: attr_list_def)
next
  case (Some w)
  then obtain xs ys where xs: "py_iter w = Returned xs"
    and ys: "collect (py_attr a) xs = Returned ys" and v: "v = PList ys"
    using assms(2) by (auto simp: attr_list_def obind_Returned)
  have "json_ok w" using assms(1) Some by (rule json_ok_map_of)
  then have "list_all json_ok xs" using xs by (rule json_ok_py_iter)
  then have "list_all json_ok ys" using ys by (rule json_ok_collect_attr)
  then show ?thesis by (simp add: v)
qed

lemma json_ok_primary_category:
  assumes "list_all json_ok (map snd e)" "primary_category e = Returned v"
  shows "json_ok v"
proof (cases "map_of e ''arxiv_primary_category''")
  case None
  then show ?thesis using assms(2) by (simp add: primary_category_def)
next
  case (Some w)
  have w: "json_ok w" using assms(1) Some by (rule json_ok_map_of)
  show ?thesis
  proof (cases w)
    case (PDict d)
    then have "v = dict_get d ''term''"
      using assms(2) Some by (simp add: primary_category_def)
    moreover have "list_all json_ok (map snd d)" using w PDict by simp
    ultimately show ?thesis by (simp add: json_ok_dict_get)
  qed (use assms(2) Some in \<open>simp_all add: primary_category_def\<close>)
qed

lemma paper_candidate_Returned:
  "paper_candidate e = Returned c \<Longrightarrow>
   \<exists>authors categories primary links.
     attr_list e ''authors'' ''name'' = Returned authors \<and>
     attr_list e ''tags'' ''term'' = Returned categories \<and>
     primary_category e = Returned primary \<and>
     attr_list e ''links'' ''href'' = Returned links \<and>
     c = [(''id'', dict_get e ''id''),
          (''title'', dict_get e ''title''),
          (''summary'', dict_get e ''summary''),
          (''published'', dict_get e ''published''),
          (''updated'', dict_get e ''updated''),
          (''authors'', authors),
          (''categories'', categories),
          (''doi'', dict_get e ''arxiv_doi''),
          (''journal_ref'', dict_get e ''arxiv_journal_ref''),
          (''comment'', dict_get e ''arxiv_comment''),
          (''primary_category'', primary),
          (''affiliation'', dict_get e ''arxiv_affiliation''),
          (''links'', links)]"
  unfolding paper_candidate_def obind_Returned by blast

lemma json_ok_paper_candidate:
  assumes "list_all json_ok (map snd e)" "paper_candidate e = Returned c"
  shows "list_all json_ok (map snd c)"
proof -
  from paper_candidate_Returned [OF assms(2)] obtain authors categories primary links where
    a: "attr_list e ''authors'' ''name'' = Returned authors" and
    t: "attr_list e ''tags'' ''term'' = Returned categories" and
    p: "primary_category e = Returned primary" and
    l: "attr_list e ''links'' ''href'' = Returned links" and
    c: "c = [(''id'', dict_get e ''id''),
          (''title'', dict_get e ''title''),
          (''summary'', dict_get e ''summary''),
          (''published'', dict_get e ''published''),
          (''updated'', dict_get e ''updated''),
          (''authors'', authors),
          (''categories'', categories),
          (''doi'', dict_get e ''arxiv_doi''),
          (''journal_ref'', dict_get e ''arxiv_journal_ref''),
          (''comment'', dict_get e ''arxiv_comment''),
          (''primary_category'', primary),
          (''affiliation'', dict_get e ''arxiv_affiliation''),
          (''links'', links)]"
    by blast
  have "json_ok authors" "json_ok categories" "json_ok links" "json_ok primary"
    using json_ok_attr_list [OF assms(1) a] json_ok_attr_list [OF assms(1) t]
      json_ok_attr_list [OF assms(1) l] json_ok_primary_category [OF assms(1) p]
    by blast+
  then show ?thesis
    unfolding c by (simp add: json_ok_dict_get [OF assms(1)])
qed

lemma json_ok_drop_none: "list_all json_ok (map snd c) \<Longrightarrow> list_all json_ok (map snd (drop_none c))"
  by (auto simp: drop_none_def list_all_iff)

lemma collect_paper_of_entry:
  "collect paper_candidate es = Returned cs \<Longrightarrow>
   collect paper_of_entry es = Returned (map (\<lambda>c. PDict (drop_none c)) cs)"
  by (auto simp: collect_Returned paper_of_entry_def obind_def)

lemma json_ok_papers:
  assumes "list_all json_ok (map PDict es)" "collect paper_candidate es = Returned cs"
  shows "json_ok (PList (map (\<lambda>c. PDict (drop_none c)) cs))"
proof -
  have "list_all json_ok (map snd (drop_none (cs ! i)))" if "i < length es" for i
  proof -
    have "list_all json_ok (map snd (es ! i))"
      using assms(1) that by (simp add: list_all_length)
    moreover have "paper_candidate (es ! i) = Returned (cs ! i)"
      using assms(2) that by (simp add: collect_Returned)
    ultimately show ?thesis by (blast intro: json_ok_drop_none json_ok_paper_candidate)
  qed
  moreover have "length cs = length es" using assms(2) by (simp add: collect_Returned)
  ultimately show ?thesis by (simp add: list_all_length)
qed



lemma paper_candidate_keys:
  "paper_candidate e = Returned c \<Longrightarrow>
   map fst c = [''id'', ''title'', ''summary'', ''published'', ''updated'', ''authors'',
                ''categories'', ''doi'', ''journal_ref'', ''comment'', ''primary_category'',
                ''affiliation'', ''links'']"
  by (drule paper_candidate_Returned) auto

lemma map_of_drop_none:
  "distinct (map fst c) \<Longrightarrow>
   map_of (drop_none c) k = Some v \<longleftrightarrow> map_of c k = Some v \<and> v \<noteq> PNone"
  unfolding drop_none_def
  by (induction c) (auto simp: map_of_eq_None_iff image_iff split: if_splits)


lemma search_attempt_feed:
  assumes "remote (net_calls tr) = Feed st entries"
    and "collect paper_candidate entries = Returned papers"
    and "list_all json_ok (map PDict entries)"
  shows "search_attempt self remote params tr
           = (Returned (Dumps (PList (map (\<lambda>paper. PDict (drop_none paper)) papers))),
              tr @ [Parse (base_url self) params])"
  using assms(1) collect_paper_of_entry [OF assms(2)] json_ok_papers [OF assms(3) assms(2)]
  by (simp add: search_attempt_def feedparser_parse_def obind_def json_dumps_def)

lemma search_attempt_round:
  "search_attempt self remote params tr
     = (round_result (remote (net_calls tr)), tr @ [Parse (base_url self) params])"
  by (cases "remote (net_calls tr)")
     (simp_all add: search_attempt_def feedparser_parse_def round_result_def)

lemma search_loop_after_failed_rounds:
  assumes "attempt + k < max_retries self"
    and "\<forall>j<k. \<exists>e. round_result (remote (net_calls tr + j)) = Raised e"
    and "round_result (remote (net_calls tr + k)) = Returned text"
  shows "fst (search_loop self remote PFunc params attempt tr) = Returned text
       \<and> net_calls (snd (search_loop self remote PFunc params attempt tr))
           = net_calls tr + k + 1"
  using assms
proof (induction k arbitrary: attempt tr)
  case 0
  then show ?case
    by (simp add: search_loop.simps [of self remote PFunc params attempt tr]
          search_attempt_round)
next
  case (Suc k)
  from Suc.prems(2) obtain e where e: "round_result (remote (net_calls tr)) = Raised e"
    by force
  let ?tr2 = "tr @ [Parse (base_url self) params, Emit (exception_status e)]"
  have step: "search_loop self remote PFunc params attempt tr
                = search_loop self remote PFunc params (Suc attempt) ?tr2"
    using Suc.prems(1) e
    by (simp add: search_loop.simps [of self remote PFunc params attempt tr]
          search_attempt_round emit_def)
  have n: "net_calls ?tr2 = net_calls tr + 1" by simp
  have a: "Suc attempt + k < max_retries self" using Suc.prems(1) by simp
  have b: "\<forall>j<k. \<exists>e. round_result (remote (net_calls ?tr2 + j)) = Raised e"
  proof (intro allI impI)
    fix j assume "j < k"
    then have "\<exists>e. round_result (remote (net_calls tr + Suc j)) = Raised e"
      using Suc.prems(2) by (meson Suc_less_eq)
    then show "\<exists>e. round_result (remote (net_calls ?tr2 + j)) = Raised e"
      unfolding n by simp
  qed
  have c: "round_result (remote (net_calls ?tr2 + k)) = Returned text"
    using Suc.prems(3) unfolding n by simp
  from Suc.IH [OF a b c] show ?case
    unfolding step n by simp
qed

lemma search_loop_every_result:
  assumes "fst (search_loop self remote em params attempt tr) = Returned text"
  shows "text = retries_exhausted
       \<or> (\<exists>k. attempt + k < max_retries self
              \<and> round_result (remote (net_calls tr + k)) = Returned text)"
  using assms
proof (induction self remote em params attempt tr rule: search_loop.induct)
  case (1 self remote em params attempt tr)
  show ?case
  proof (cases "attempt < max_retries self")
    case False
    then show ?thesis
      using "1.prems" by (simp add: search_loop.simps [of self remote em params attempt tr])
  next
    case True
    let ?tr1 = "tr @ [Parse (base_url self) params]"
    show ?thesis
    proof (cases "round_result (remote (net_calls tr))")
      case (Returned text')
      then have "text' = text"
        using "1.prems" True
        by (simp add: search_loop.simps [of self remote em params attempt tr]
              search_attempt_round)
      then show ?thesis using Returned True by (intro disjI2 exI [of _ 0]) simp
    next
      case (Raised e)
      have att: "search_attempt self remote params tr = (Raised e, ?tr1)"
        using Raised by (simp add: search_attempt_round)
      show ?thesis
      proof (cases "em = PFunc")
        case False
        then have "emit em (exception_status e) ?tr1 = (Raised (not_callable em), ?tr1)"
          by (cases em) (simp_all add: emit_def)
        then have "fst (search_loop self remote em params attempt tr)
                     = Raised (not_callable em)"
          using True att
          by (simp add: search_loop.simps [of self remote em params attempt tr])
        then show ?thesis using "1.prems" by simp
      next
        case pf: True
        let ?tr2 = "?tr1 @ [Emit (exception_status e)]"
        have em: "emit em (exception_status e) ?tr1 = (Returned (), ?tr2)"
          using pf by (simp add: emit_def)
        have step: "search_loop self remote em params attempt tr
                      = search_loop self remote em params (attempt + 1) ?tr2"
          using True att em
          by (simp add: search_loop.simps [of self remote em params attempt tr])
        from "1.IH" [OF True att [symmetric] refl em [symmetric] refl] "1.prems"
        have "text = retries_exhausted
            \<or> (\<exists>k. attempt + 1 + k < max_retries self
                  \<and> round_result (remote (net_calls ?tr2 + k)) = Returned text)"
          unfolding step by simp
        then show ?thesis
        proof
          assume "text = retries_exhausted"
          then show ?thesis by simp
        next
          assume "\<exists>k. attempt + 1 + k < max_retries self
                  \<and> round_result (remote (net_calls ?tr2 + k)) = Returned text"
          then obtain k where k: "attempt + 1 + k < max_retries self"
            "round_result (remote (net_calls ?tr2 + k)) = Returned text" by blast
          have "attempt + Suc k < max_retries self" using k(1) by simp
          moreover have "round_result (remote (net_calls tr + Suc k)) = Returned text"
            using k(2) by simp
          ultimately show ?thesis by blast
        qed
      qed
    qed
  qed
qed

lemma collect_paper_of_entry_Returned:
  "collect paper_of_entry es = Returned ps \<Longrightarrow>
   \<exists>cs. collect paper_candidate es = Returned cs
      \<and> ps = map (\<lambda>c. PDict (drop_none c)) cs"
proof (induction es arbitrary: ps)
  case Nil
  then show ?case by simp
next
  case (Cons x es)
  from Cons.prems obtain y ys where y: "paper_of_entry x = Returned y"
    and ys: "collect paper_of_entry es = Returned ys" and ps: "ps = y # ys"
    by (auto simp: obind_Returned)
  from y obtain c where c: "paper_candidate x = Returned c" "y = PDict (drop_none c)"
    by (auto simp: paper_of_entry_def obind_Returned)
  from Cons.IH [OF ys] obtain cs where cs: "collect paper_candidate es = Returned cs"
    "ys = map (\<lambda>c. PDict (drop_none c)) cs" by blast
  have "collect paper_candidate (x # es) = Returned (c # cs)"
    using c cs by (simp add: obind_def)
  then show ?case using ps c cs by (intro exI [of _ "c # cs"]) simp
qed

lemma round_result_Returned:
  "round_result r = Returned text \<Longrightarrow>
   \<exists>st entries papers. r = Feed st entries
      \<and> collect paper_candidate entries = Returned papers
      \<and> text = Dumps (PList (map (\<lambda>c. PDict (drop_none c)) papers))"
proof (cases r)
  case (ParseRaises e)
  assume "round_result r = Returned text"
  then show ?thesis using ParseRaises by (simp add: round_result_def)
next
  case (Feed st entries)
  assume "round_result r = Returned text"
  then obtain ps where ps: "collect paper_of_entry entries = Returned ps"
    and t: "json_dumps (PList ps) = Returned text"
    using Feed by (auto simp: round_result_def obind_Returned)
  from t have "text = Dumps (PList ps)"
    by (auto simp: json_dumps_def split: if_splits)
  then show ?thesis
    using Feed collect_paper_of_entry_Returned [OF ps] by blast
qed

lemma round_result_feed:
  assumes "collect paper_candidate entries = Returned papers"
    and "list_all json_ok (map PDict entries)"
  shows "round_result (Feed st entries)
           = Returned (Dumps (PList (map (\<lambda>paper. PDict (drop_none paper)) papers)))"
  using collect_paper_of_entry [OF assms(1)] json_ok_papers [OF assms(2) assms(1)]
  by (simp add: round_result_def obind_def json_dumps_def)

text \<open>
  Claim C8: for every entry of the feed, the record the arXiv search returns has exactly
  the keys of the candidate record \<open>paper\<close> (\<open>id\<close>, \<open>title\<close>, \<open>summary\<close>, \<open>published\<close>,
  \<open>updated\<close>, \<open>authors\<close>, \<open>categories\<close>, \<open>doi\<close>, \<open>journal_ref\<close>, \<open>comment\<close>,
  \<open>primary_category\<close>, \<open>affiliation\<close>, \<open>links\<close>) whose value is not \<open>None\<close>, each with its
  value unchanged; values are not filtered inside. Two statements together:
  \<^item> after any number \<open>k < max_retries\<close> of failed rounds (the download raised, or a
    record could not be built or rendered), a round whose download is a feed of JSON data
    with candidate records that all compute ends the search: it returns, in the order of
    the feed, each candidate with its \<open>None\<close> entries dropped, after \<open>k + 1\<close> downloads
    (\<open>k = 0\<close> is the first download);
  \<^item> whatever the emitter and whatever the remote side does, anything the search returns
    is the error value of exhausted retries or is, for the feed of one of its rounds,
    the list of that feed's candidates with their \<open>None\<close> entries dropped.

  In the example below the first download fails, and the \<open>None\<close> inside the list of
  links stays.
\<close>

theorem search_records_drop_top_level_none:
  assumes "k < max_retries self"
    and "\<forall>j<k. \<exists>e. round_result (remote (net_calls tr + j)) = Raised e"
    and "remote (net_calls tr + k) = Feed st entries"
    and "collect paper_candidate entries = Returned papers"
    and "list_all json_ok (map PDict entries)"
  shows "fst (search self remote PFunc search_query id_list start max_results sort_by
                sort_order tr)
           = Returned (Dumps (PList (map (\<lambda>paper. PDict (drop_none paper)) papers)))
       \<and> net_calls (snd (search self remote PFunc search_query id_list start max_results
                sort_by sort_order tr)) = net_calls tr + k + 1
       \<and> length papers = length entries
       \<and> (\<forall>i < length entries.
            paper_candidate (entries ! i) = Returned (papers ! i)
          \<and> map fst (papers ! i) =
              [''id'', ''title'', ''summary'', ''published'', ''updated'', ''authors'',
               ''categories'', ''doi'', ''journal_ref'', ''comment'', ''primary_category'',
               ''affiliation'', ''links'']
          \<and> (\<forall>k v. map_of (drop_none (papers ! i)) k = Some v
                   \<longleftrightarrow> map_of (papers ! i) k = Some v \<and> v \<noteq> PNone))
       \<and> (\<forall>em text.
             fst (search self remote em search_query id_list start max_results sort_by
                    sort_order tr) = Returned text
             \<longrightarrow> text = retries_exhausted
               \<or> (\<exists>k' st' entries' papers'.
                     k' < max_retries self
                   \<and> remote (net_calls tr + k') = Feed st' entries'
                   \<and> collect paper_candidate entries' = Returned papers'
                   \<and> text = Dumps (PList (map (\<lambda>paper. PDict (drop_none paper)) papers'))))"
proof -
  let ?params = "search_params self search_query id_list start max_results sort_by sort_order"
  let ?ev = "Emit \<lparr>description = [Txt ''Searching ArXiv with the following parameters '',
                                   Val (PDict ?params)],
                   done_flag = False, hidden = Some True\<rparr>"
  have same: "net_calls (tr @ [?ev]) = net_calls tr" by simp
  have run: "search self remote PFunc search_query id_list start max_results sort_by
               sort_order tr = search_loop self remote PFunc ?params 0 (tr @ [?ev])"
    by (simp add: search_def emit_def and_then_def Let_def)
  have good: "round_result (remote (net_calls (tr @ [?ev]) + k))
                = Returned (Dumps (PList (map (\<lambda>paper. PDict (drop_none paper)) papers)))"
    unfolding same assms(3) by (rule round_result_feed [OF assms(4) assms(5)])
  have bad: "\<forall>j<k. \<exists>e. round_result (remote (net_calls (tr @ [?ev]) + j)) = Raised e"
    unfolding same by (rule assms(2))
  have "0 + k < max_retries self" using assms(1) by simp
  from search_loop_after_failed_rounds [OF this bad good, of ?params]
  have first: "fst (search self remote PFunc search_query id_list start max_results sort_by
                sort_order tr)
           = Returned (Dumps (PList (map (\<lambda>paper. PDict (drop_none paper)) papers)))
       \<and> net_calls (snd (search self remote PFunc search_query id_list start max_results
                sort_by sort_order tr)) = net_calls tr + k + 1"
    unfolding run same by simp
  have len: "length papers = length entries"
    and each: "\<forall>i < length entries. paper_candidate (entries ! i) = Returned (papers ! i)"
    using assms(4) by (simp_all add: collect_Returned)
  have rest: "map fst (papers ! i) =
              [''id'', ''title'', ''summary'', ''published'', ''updated'', ''authors'',
               ''categories'', ''doi'', ''journal_ref'', ''comment'', ''primary_category'',
               ''affiliation'', ''links'']
          \<and> (\<forall>k v. map_of (drop_none (papers ! i)) k = Some v
                   \<longleftrightarrow> map_of (papers ! i) k = Some v \<and> v \<noteq> PNone)"
    if "i < length entries" for i
  proof -
    have keys: "map fst (papers ! i) =
              [''id'', ''title'', ''summary'', ''published'', ''updated'', ''authors'',
               ''categories'', ''doi'', ''journal_ref'', ''comment'', ''primary_category'',
               ''affiliation'', ''links'']"
      using each that by (blast intro: paper_candidate_keys)
    then have "distinct (map fst (papers ! i))" by simp
    then show ?thesis using keys by (simp add: map_of_drop_none)
  qed
  have every: "res = retries_exhausted
               \<or> (\<exists>k' st' entries' papers'.
                     k' < max_retries self
                   \<and> remote (net_calls tr + k') = Feed st' entries'
                   \<and> collect paper_candidate entries' = Returned papers'
                   \<and> res = Dumps (PList (map (\<lambda>paper. PDict (drop_none paper)) papers')))"
    if r: "fst (search self remote em search_query id_list start max_results sort_by
                    sort_order tr) = Returned res" for em res
  proof (cases "em = PFunc")
    case False
    then have "fst (search self remote em search_query id_list start max_results sort_by
                    sort_order tr) = Raised (not_callable em)"
      by (cases em) (simp_all add: search_def emit_def and_then_def Let_def)
    then show ?thesis using r by simp
  next
    case True
    then have "fst (search_loop self remote em ?params 0 (tr @ [?ev])) = Returned res"
      using r by (simp add: search_def emit_def and_then_def Let_def)
    from search_loop_every_result [OF this] show ?thesis
    proof
      assume "res = retries_exhausted"
      then show ?thesis by simp
    next
      assume "\<exists>k. 0 + k < max_retries self
                \<and> round_result (remote (net_calls (tr @ [?ev]) + k)) = Returned res"
      then obtain k' where k': "k' < max_retries self"
        "round_result (remote (net_calls tr + k')) = Returned res"
        unfolding same by auto
      from round_result_Returned [OF k'(2)] show ?thesis using k'(1) by blast
    qed
  qed
  show ?thesis using first len each rest every by blast
qed

theorem search_records_drop_top_level_none_witness:
  "fst (search arxiv_init
          (after 1 (ParseRaises (OtherError ''timed out''))
             (Feed 200
                [[(''id'', PStr ''http://arxiv.org/abs/2106.15928v1''),
                  (''title'', PStr ''Thermal conductivity''),
                  (''authors'', PList [PDict [(''name'', PStr ''A. Author'')]]),
                  (''links'', PList [PDict [(''href'', PNone)]])]]))
          PFunc (PStr ''all:electron'') PNone PNone PNone PNone PNone [])
     = Returned (Dumps (PList
         [PDict [(''id'', PStr ''http://arxiv.org/abs/2106.15928v1''),
                 (''title'', PStr ''Thermal conductivity''),
                 (''authors'', PList [PStr ''A. Author'']),
                 (''links'', PList [PNone])]]))
   \<and> net_calls (snd (search arxiv_init
          (after 1 (ParseRaises (OtherError ''timed out''))
             (Feed 200
                [[(''id'', PStr ''http://arxiv.org/abs/2106.15928v1''),
                  (''title'', PStr ''Thermal conductivity''),
                  (''authors'', PList [PDict [(''name'', PStr ''A. Author'')]]),
                  (''links'', PList [PDict [(''href'', PNone)]])]]))
          PFunc (PStr ''all:electron'') PNone PNone PNone PNone PNone [])) = 2"
proof -
  let ?entry = "[(''id'', PStr ''http://arxiv.org/abs/2106.15928v1''),
               (''title'', PStr ''Thermal conductivity''),
               (''authors'', PList [PDict [(''name'', PStr ''A. Author'')]]),
               (''links'', PList [PDict [(''href'', PNone)]])]"
  let ?paper = "[(''id'', PStr ''http://arxiv.org/abs/2106.15928v1''),
                 (''title'', PStr ''Thermal conductivity''),
                 (''summary'', PNone), (''published'', PNone), (''updated'', PNone),
                 (''authors'', PList [PStr ''A. Author'']),
                 (''categories'', PNone), (''doi'', PNone), (''journal_ref'', PNone),
                 (''comment'', PNone), (''primary_category'', PNone),
                 (''affiliation'', PNone),
                 (''links'', PList [PNone])]"
  let ?remote = "after 1 (ParseRaises (OtherError ''timed out'')) (Feed 200 [?entry])"
  have retries: "1 < max_retries arxiv_init"
    by (simp add: arxiv_init_def)
  have failed: "\<forall>j<1. \<exists>e. round_result (?remote (net_calls [] + j)) = Raised e"
    by (simp add: after_def round_result_def)
  have feed: "?remote (net_calls [] + 1) = Feed 200 [?entry]"
    by (simp add: after_def)
  have cand: "collect paper_candidate [?entry] = Returned [?paper]"
    by (simp add: paper_candidate_def attr_list_def primary_category_def obind_def
          dict_get_def)
  have json: "list_all json_ok (map PDict [?entry])"
    by simp
  show ?thesis
    using search_records_drop_top_level_none
            [where remote = ?remote and tr = "[]" and st = 200 and k = 1
               and entries = "[?entry]" and papers = "[?paper]" and self = arxiv_init
               and search_query = "PStr ''all:electron''" and id_list = PNone
               and start = PNone and max_results = PNone and sort_by = PNone
               and sort_order = PNone]
          retries failed feed cand json
    by (simp add: drop_none_def)
qed

subsection \<open>Unset parameters\<close>




lemma none_not_in_drop_none: "(k, PNone) \<notin> set (drop_none d)"
  by (simp add: drop_none_def)



























subsection \<open>HTTP status errors\<close>

text \<open>
  Claim C3, as the code has it: for the operations built on \<open>httpx\<close> (Semantic Scholar's
  \<open>fetch_paper\<close> and \<open>fetch_papers_partial_match\<close>, the registry's \<open>call_api\<close>, Congress's
  \<open>call_api\<close> with an endpoint), called with a progress sink, a non-2xx response ends the
  call after that one request: a closing status event, then the error value
  \<open>{"error": "HTTP error: <status code>"}\<close>. Nothing is retried.
\<close>

theorem http_status_error_returned_at_once:
  assumes "remote (net_calls tr) = HTTPStatus code"
  shows "fetch_paper remote PFunc q limit fields' publicationTypes openAccessPdf
           minCitationCount publicationDateOrYear year venue fieldsOfStudy offset tr
         = (Returned (PDict [(''error'', PStr (''HTTP error: '' @ str_int code))]),
            tr @ [Emit \<lparr>description = [Txt ''Searching for papers...''],
                        done_flag = False, hidden = Some True\<rparr>,
                  Get (ss_base_url @ ''paper/search'')
                    (fetch_paper_params q limit fields' publicationTypes openAccessPdf
                       minCitationCount publicationDateOrYear year venue fieldsOfStudy offset),
                  Emit (http_error_status code)])
       \<and> fetch_papers_partial_match remote PFunc q tr
         = (Returned (PDict [(''error'', PStr (''HTTP error: '' @ str_int code))]),
            tr @ [Emit \<lparr>description = [Txt ''Searching for papers using partial match...''],
                        done_flag = False, hidden = Some True\<rparr>,
                  Get (ss_base_url @ ''paper/autocomplete'') [(''query'', q)],
                  Emit (http_error_status code)])
       \<and> ror_call_api remote params msg PFunc tr
         = (Returned (PDict [(''error'', PStr (''HTTP error: '' @ str_int code))]),
            tr @ [Emit (ror_start_status msg), Get ror_BASE_URL params,
                  Emit (http_error_status code)])
       \<and> congress_call_api remote api_key PFunc (Some endpoint) (Some params) msg tr
         = (Returned (PDict [(''error'', PStr (''HTTP error: '' @ str_int code))]),
            tr @ [Emit \<lparr>description = [Txt ''Searching for '', Val msg, Txt ''...''],
                        done_flag = False, hidden = Some True\<rparr>,
                  Get (congress_BASE_URL @ endpoint)
                    (dict_set ''api_key'' (opt_str api_key)
                       (dict_set ''format'' (PStr congress_format) params)),
                  Emit (http_error_status code)])
       \<and> net_calls (tr @ [Emit starting, Get url ps, Emit (http_error_status code)])
         = net_calls tr + 1"
  using assms
  by (simp add: fetch_paper_def fetch_papers_partial_match_def ror_call_api_def
        congress_call_api_def Let_def and_then_def emit_def client_get_def
        http_error_value_def)

theorem http_status_error_returned_at_once_witness:
  "fetch_papers_partial_match (always (HTTPStatus 404)) PFunc (PStr ''semanti'') []
     = (Returned (PDict [(''error'', PStr ''HTTP error: 404'')]),
        [Emit \<lparr>description = [Txt ''Searching for papers using partial match...''],
                done_flag = False, hidden = Some True\<rparr>,
         Get (ss_base_url @ ''paper/autocomplete'') [(''query'', PStr ''semanti'')],
         Emit (http_error_status 404)])"
  using http_status_error_returned_at_once
          [where remote = "always (HTTPStatus 404)" and tr = "[]" and code = 404
             and q = "PStr ''semanti''"]
  by (simp add: always_def str_int_def)

text \<open>
  The claim is stated for every operation, and the arXiv search is not like that. It never
  looks at an HTTP status: a feed that came with status 404 is processed like any other
  (here it has no entries and the search returns the empty list), and if the download
  raises for the status instead, the search retries it three times and returns the generic
  error value, which names no status code.
\<close>

theorem search_does_not_report_http_status:
  "fst (search arxiv_init (always (Feed 404 [])) PFunc (PStr ''all:electron'') PNone PNone
          PNone PNone PNone []) = Returned (Dumps (PList []))
   \<and> net_calls (snd (search arxiv_init (always (Feed 404 [])) PFunc (PStr ''all:electron'')
          PNone PNone PNone PNone PNone [])) = 1
   \<and> fst (search arxiv_init (always (ParseRaises (OtherError ''HTTP Error 404: Not Found'')))
          PFunc (PStr ''all:electron'') PNone PNone PNone PNone PNone [])
       = Returned retries_exhausted
   \<and> net_calls (snd (search arxiv_init
          (always (ParseRaises (OtherError ''HTTP Error 404: Not Found'')))
          PFunc (PStr ''all:electron'') PNone PNone PNone PNone PNone [])) = 3"
proof -
  let ?params = "search_params arxiv_init (PStr ''all:electron'') PNone PNone PNone PNone PNone"
  let ?ev = "Emit \<lparr>description = [Txt ''Searching ArXiv with the following parameters '',
                                   Val (PDict ?params)],
                   done_flag = False, hidden = Some True\<rparr>"
  have att: "search_attempt arxiv_init (always (Feed 404 [])) ?params [?ev]
               = (Returned (Dumps (PList [])), [?ev, Parse (base_url arxiv_init) ?params])"
    by (simp add: search_attempt_def feedparser_parse_def always_def obind_def json_dumps_def)
  have mr: "max_retries arxiv_init = 3"
    by (simp add: arxiv_init_def)
  have "search_loop arxiv_init (always (Feed 404 [])) PFunc ?params 0 [?ev]
          = (Returned (Dumps (PList [])), [?ev, Parse (base_url arxiv_init) ?params])"
    using att mr
    by (simp add: search_loop.simps [of arxiv_init "always (Feed 404 [])" PFunc ?params 0])
  then have feed: "search arxiv_init (always (Feed 404 [])) PFunc (PStr ''all:electron'') PNone
          PNone PNone PNone PNone []
          = (Returned (Dumps (PList [])), [?ev, Parse (base_url arxiv_init) ?params])"
    by (simp add: search_def Let_def emit_def and_then_def)
  have raise: "\<forall>n. \<exists>e. always (ParseRaises (OtherError ''HTTP Error 404: Not Found'')) n
                         = ParseRaises e"
    by (simp add: always_def)
  have loop: "fst (search_loop arxiv_init
                 (always (ParseRaises (OtherError ''HTTP Error 404: Not Found''))) PFunc
                 ?params 0 [?ev]) = Returned retries_exhausted
            \<and> net_calls (snd (search_loop arxiv_init
                 (always (ParseRaises (OtherError ''HTTP Error 404: Not Found''))) PFunc
                 ?params 0 [?ev])) = 3"
    using search_loop_all_raise [OF raise, of arxiv_init ?params 0 "[?ev]"] mr
    by simp
  show ?thesis
    using feed loop by (simp add: search_def Let_def emit_def and_then_def)
qed


subsection \<open>Steps that only add to the trace\<close>

lemma appendsD: "appends m \<Longrightarrow> m tr = (fst (m []), tr @ snd (m []))"
  unfolding appends_def by (erule allE)

lemma appends_const [simp]: "appends (\<lambda>tr. (r, tr))"
  by (simp add: appends_def)

lemma appends_emit [simp]: "appends (emit em ev)"
  by (cases em) (simp_all add: appends_def emit_def)

lemma appends_lib_call [simp]: "appends (lib_call lib t c)"
  by (simp add: appends_def lib_call_def)

lemma appends_lib_hasattr [simp]: "appends (lib_hasattr lib t n)"
  by (simp add: appends_def lib_hasattr_def)

lemma appends_and_then:
  assumes m: "appends m" and f: "\<And>x. appends (f x)"
  shows "appends (\<lambda>tr. and_then (m tr) f)"
  unfolding appends_def
proof
  fix tr
  show "and_then (m tr) f = (fst (and_then (m []) f), tr @ snd (and_then (m []) f))"
  proof (cases "fst (m [])")
    case (Raised e)
    have "fst (m tr) = Raised e" "snd (m tr) = tr @ snd (m [])"
      using appendsD [OF m, of tr] Raised by simp_all
    then show ?thesis
      using Raised by (simp add: and_then_Raised)
  next
    case (Returned x)
    have "fst (m tr) = Returned x" "snd (m tr) = tr @ snd (m [])"
      using appendsD [OF m, of tr] Returned by simp_all
    then have a: "and_then (m tr) f = f x (tr @ snd (m []))"
      by (simp add: and_then_Returned)
    have b: "and_then (m []) f = f x (snd (m []))"
      using Returned by (simp add: and_then_Returned)
    show ?thesis
      unfolding a b
      using appendsD [OF f, of x "tr @ snd (m [])"] appendsD [OF f, of x "snd (m [])"]
      by simp
  qed
qed

lemma appends_if: "appends a \<Longrightarrow> appends b \<Longrightarrow> appends (\<lambda>tr. if c then a tr else b tr)"
  by (cases c) simp_all

lemma appends_with_extra: "appends (with_extra lib t extra data)"
proof -
  have has: "appends (\<lambda>tr1. if has
                 then and_then (lib_call lib t (Attr name) tr1)
                        (\<lambda>extra_data tr2.
                           (Returned (YDict (dict_set name (extra_records extra_data)
                                               [(''main'', data)])), tr2))
                 else (Returned data, tr1))" for has name
    by (intro appends_if appends_and_then) simp_all
  have "appends (\<lambda>tr. and_then (lib_hasattr lib t name tr)
               (\<lambda>has tr1. if has
                 then and_then (lib_call lib t (Attr name) tr1)
                        (\<lambda>extra_data tr2.
                           (Returned (YDict (dict_set name (extra_records extra_data)
                                               [(''main'', data)])), tr2))
                 else (Returned data, tr1)))" for name
    by (intro appends_and_then has) simp
  then show ?thesis
    unfolding with_extra_def [abs_def] by (cases extra) (simp_all add: appends_if)
qed

lemma appends_finish:
  "appends (\<lambda>tr1.
      and_then (with_extra lib ticker extra data tr1)
        (\<lambda>data tr2.
           let data = make_json_serializable data in
           and_then
             (emit em \<lparr>description = [Txt ''Fetched '', Val (PStr ticker),
                                       Txt '' successfully''],
                       done_flag = True, hidden = None\<rparr> tr2)
             (\<lambda>_ tr3. (Returned data, tr3))))"
  unfolding Let_def
  by (intro appends_and_then appends_with_extra) simp_all


lemma history_call_first:
  "snd (fetch_body lib today_minus valves em ticker start_date end_date ''history'' period
          interval extra tr) ! length tr
   = Yf ticker ''history''
       (history_kwargs today_minus (base_kwargs valves interval) start_date end_date period)"
proof -
  let ?kw = "history_kwargs today_minus (base_kwargs valves interval) start_date end_date period"
  let ?finish = "\<lambda>data tr1.
      and_then (with_extra lib ticker extra data tr1)
        (\<lambda>data tr2.
           let data = make_json_serializable data in
           and_then
             (emit em \<lparr>description = [Txt ''Fetched '', Val (PStr ticker),
                                       Txt '' successfully''],
                       done_flag = True, hidden = None\<rparr> tr2)
             (\<lambda>_ tr3. (Returned data, tr3)))"
  have body: "fetch_body lib today_minus valves em ticker start_date end_date ''history''
                period interval extra tr
              = and_then (lib_call lib ticker (History ?kw) tr) ?finish"
    by (simp add: fetch_body_def Let_def)
  have call: "snd (lib_call lib ticker (History ?kw) tr) = tr @ [Yf ticker ''history'' ?kw]"
    by (simp add: lib_call_def)
  show ?thesis
  proof (cases "fst (lib_call lib ticker (History ?kw) tr)")
    case (Raised e)
    then show ?thesis
      unfolding body by (simp add: and_then_Raised call)
  next
    case (Returned data)
    have "?finish data (tr @ [Yf ticker ''history'' ?kw])
            = (fst (?finish data []), (tr @ [Yf ticker ''history'' ?kw]) @ snd (?finish data []))"
      by (rule appendsD [OF appends_finish])
    then show ?thesis
      unfolding body and_then_Returned [OF Returned] call by (simp add: nth_append)
  qed
qed


subsection \<open>The market-data fan-out\<close>

















subsection \<open>Dates that do not parse\<close>

text \<open>
  Claim C6, as the code has it: when a non-empty \<open>fromDateTime\<close> does not parse, or
  \<open>fromDateTime\<close> is unset, empty or parses and a non-empty \<open>toDateTime\<close> does not parse,
  \<open>get_bills\<close> prints a hint about the format and returns \<open>None\<close>, as its docstring
  says; it makes no network call and emits no status event. This holds whatever the sink
  and whatever \<open>strptime\<close> accepts.
\<close>

theorem get_bills_bad_date_returns_none:
  assumes "s \<noteq> []" and "\<not> strptime s datetime_format"
  shows "get_bills strptime remote api_key em offset limit (Some s) toDateTime sort_arg tr
           = (Returned PNone,
              tr @ [Print ''Incorrect fromDateTime format, should be YYYY-MM-DDT00:00:00Z''])
       \<and> ((case fromDateTime of None \<Rightarrow> True
             | Some f \<Rightarrow> f = [] \<or> strptime f datetime_format)
            \<longrightarrow> get_bills strptime remote api_key em offset limit fromDateTime (Some s) sort_arg tr
                = (Returned PNone,
                   tr @ [Print ''Incorrect toDateTime format, should be YYYY-MM-DDT00:00:00Z'']))
       \<and> net_calls (tr @ [Print msg]) = net_calls tr"
  using assms
  by (auto simp: get_bills_def date_param_def Let_def split: option.splits)

theorem get_bills_bad_date_returns_none_witness:
  "get_bills (accepts_only ''2024-01-01T00:00:00Z'') (always (Ok (PDict []))) (Some ''k'') PFunc
       0 10 (Some ''2024-01-01T00:00:00Z'') (Some ''2024-02-30'') None []
     = (Returned PNone,
        [Print ''Incorrect toDateTime format, should be YYYY-MM-DDT00:00:00Z''])"
  using get_bills_bad_date_returns_none
          [where s = "''2024-02-30''" and strptime = "accepts_only ''2024-01-01T00:00:00Z''"
             and fromDateTime = "Some ''2024-01-01T00:00:00Z''" and tr = "[]"
             and remote = "always (Ok (PDict []))" and api_key = "Some ''k''" and em = PFunc
             and offset = 0 and limit = 10 and sort_arg = None]
  by (simp add: accepts_only_def)

text \<open>
  The claim asks for a tagged error value. The operation returns the bare \<open>None\<close> its
  docstring announces.
\<close>

theorem get_bills_bad_date_is_not_an_error_value:
  "get_bills (accepts_only ''2024-01-01T00:00:00Z'') (always (Ok (PDict []))) (Some ''k'') PFunc
       0 10 (Some ''yesterday'') None None []
     = (Returned PNone,
        [Print ''Incorrect fromDateTime format, should be YYYY-MM-DDT00:00:00Z''])"
  by (simp add: get_bills_def date_param_def accepts_only_def)

subsection \<open>Start date, end date and period\<close>

text \<open>
  Claim C7, as the code has it: a history fetch chooses its date arguments in a fixed
  order of priority. A start and an end date win, and a period given with them is dropped;
  otherwise a start date with a period; otherwise an end date with a period; otherwise the
  period alone; otherwise the two-day window ending yesterday, also when only a start or
  only an end date was given. An argument that is \<open>None\<close> or empty counts as not given.
  The arguments chosen are the ones the library's \<open>history\<close> is called with, first thing.
  No combination is refused.
\<close>

theorem history_arguments_by_priority:
  "(s \<noteq> [] \<and> e \<noteq> []
      \<longrightarrow> history_kwargs today_minus kwargs (Some s) (Some e) period
          = dict_set ''end'' (PStr e) (dict_set ''start'' (PStr s) kwargs))
   \<and> (s \<noteq> [] \<and> \<not> truthy (opt_str end_date) \<and> p \<noteq> []
      \<longrightarrow> history_kwargs today_minus kwargs (Some s) end_date (Some p)
          = dict_set ''period'' (PStr p) (dict_set ''start'' (PStr s) kwargs))
   \<and> (\<not> truthy (opt_str start_date) \<and> e \<noteq> [] \<and> p \<noteq> []
      \<longrightarrow> history_kwargs today_minus kwargs start_date (Some e) (Some p)
          = dict_set ''period'' (PStr p) (dict_set ''end'' (PStr e) kwargs))
   \<and> (\<not> truthy (opt_str start_date) \<and> \<not> truthy (opt_str end_date) \<and> p \<noteq> []
      \<longrightarrow> history_kwargs today_minus kwargs start_date end_date (Some p)
          = dict_set ''period'' (PStr p) kwargs)
   \<and> (\<not> truthy (opt_str period)
        \<and> \<not> (truthy (opt_str start_date) \<and> truthy (opt_str end_date))
      \<longrightarrow> history_kwargs today_minus kwargs start_date end_date period
          = dict_set ''end'' (PStr (today_minus 1))
              (dict_set ''start'' (PStr (today_minus 2)) kwargs))
   \<and> snd (fetch_body lib today_minus valves em ticker start_date end_date ''history'' period
              interval extra tr) ! length tr
       = Yf ticker ''history''
           (history_kwargs today_minus (base_kwargs valves interval) start_date end_date
              period)"
  using history_call_first [of lib today_minus valves em ticker start_date end_date period
          interval extra tr]
  by (simp add: history_kwargs_def)

theorem history_arguments_by_priority_witness:
  "history_kwargs (always ''2024-03-01'') [] (Some ''2024-01-01'') (Some ''2024-02-01'')
       (Some ''1mo'')
     = [(''start'', PStr ''2024-01-01''), (''end'', PStr ''2024-02-01'')]
   \<and> history_kwargs (always ''2024-03-01'') [] (Some ''2024-01-01'') None None
     = [(''start'', PStr ''2024-03-01''), (''end'', PStr ''2024-03-01'')]"
  using history_arguments_by_priority
          [where s = "''2024-01-01''" and e = "''2024-02-01''" and period = "Some ''1mo''"
             and today_minus = "always ''2024-03-01''" and kwargs = "[]"]
        history_arguments_by_priority
          [where start_date = "Some ''2024-01-01''" and end_date = None and period = None
             and today_minus = "always ''2024-03-01''" and kwargs = "[]"]
  by (simp add: always_def)

text \<open>
  The claim has all three arguments together fail with an error. The code resolves them
  like any other combination: start and end date go to the library, the period does not,
  and the call succeeds.
\<close>

theorem all_three_history_arguments_are_accepted:
  "fetch_single_ticker (answering (YValue (YFrame []))) (always ''2024-03-01'')
       yf_default_valves PFunc ''AAPL'' (Some ''2024-01-01'') (Some ''2024-02-01'') ''history''
       (Some ''1mo'') ''1d'' None []
     = (Returned (PDict [(''AAPL'', PList [])]),
        [Emit \<lparr>description = [Txt ''Fetching '', Val (PStr ''AAPL''), Txt '' ('',
                                Val (PStr ''history''), Txt '')...''],
                done_flag = False, hidden = None\<rparr>,
         Yf ''AAPL'' ''history''
           [(''interval'', PStr ''1d''), (''actions'', PBool True),
            (''auto_adjust'', PBool False), (''prepost'', PBool False),
            (''start'', PStr ''2024-01-01''), (''end'', PStr ''2024-02-01'')],
         Emit \<lparr>description = [Txt ''Fetched '', Val (PStr ''AAPL''), Txt '' successfully''],
                done_flag = True, hidden = None\<rparr>])"
  by (simp add: fetch_single_ticker_def fetch_body_def history_kwargs_def base_kwargs_def
        with_extra_def lib_call_def answering_def yf_default_valves_def and_then_def emit_def
        Let_def)

end
